theory Spec2Isabelle
  imports Complex_Main "HOL-Library.Word"
begin

section \<open>Scalars\<close>

text \<open>
  The source computes with \<^verbatim>\<open>float\<close> (\<^verbatim>\<open>coord_t\<close>, the fields of \<^verbatim>\<open>pcl::PointXYZ\<close>) and
  \<^verbatim>\<open>double\<close> (\<^verbatim>\<open>coord2_t\<close>, \<^verbatim>\<open>Eigen::Vector3d\<close>). Both are modelled by one type: a finite
  value is the real number it denotes, and the special values of IEEE 754 (the two
  infinities and NaN) are explicit. Rounding, overflow and the sign of zero are not
  modelled: arithmetic on finite values is exact.
\<close>

datatype fp = Fin real | PInf | NInf | NaN

fun fneg :: "fp \<Rightarrow> fp" where
  "fneg (Fin a) = Fin (- a)"
| "fneg PInf = NInf"
| "fneg NInf = PInf"
| "fneg NaN = NaN"

fun fadd :: "fp \<Rightarrow> fp \<Rightarrow> fp" where
  "fadd (Fin a) (Fin b) = Fin (a + b)"
| "fadd NaN _ = NaN"
| "fadd _ NaN = NaN"
| "fadd PInf NInf = NaN"
| "fadd NInf PInf = NaN"
| "fadd PInf _ = PInf"
| "fadd _ PInf = PInf"
| "fadd NInf _ = NInf"
| "fadd _ NInf = NInf"

definition fsub :: "fp \<Rightarrow> fp \<Rightarrow> fp" where
  "fsub a b = fadd a (fneg b)"

fun fsign :: "fp \<Rightarrow> real" where
  "fsign (Fin a) = sgn a"
| "fsign PInf = 1"
| "fsign NInf = - 1"
| "fsign NaN = 0"

definition signed_inf :: "real \<Rightarrow> fp" where
  "signed_inf s = (if s = 0 then NaN else if 0 < s then PInf else NInf)"

fun fmul :: "fp \<Rightarrow> fp \<Rightarrow> fp" where
  "fmul (Fin a) (Fin b) = Fin (a * b)"
| "fmul NaN _ = NaN"
| "fmul _ NaN = NaN"
| "fmul a b = signed_inf (fsign a * fsign b)"

fun fdiv :: "fp \<Rightarrow> fp \<Rightarrow> fp" where
  "fdiv (Fin a) (Fin b) = (if b = 0 then signed_inf (sgn a) else Fin (a / b))"
| "fdiv NaN _ = NaN"
| "fdiv _ NaN = NaN"
| "fdiv (Fin a) _ = Fin 0"
| "fdiv a (Fin b) = signed_inf (fsign a * (if b < 0 then - 1 else 1))"
| "fdiv _ _ = NaN"

fun fsqrt :: "fp \<Rightarrow> fp" where
  "fsqrt (Fin a) = (if a < 0 then NaN else Fin (sqrt a))"
| "fsqrt PInf = PInf"
| "fsqrt NInf = NaN"
| "fsqrt NaN = NaN"

text \<open>Comparisons: every comparison with NaN is false.\<close>

fun flt :: "fp \<Rightarrow> fp \<Rightarrow> bool" where
  "flt (Fin a) (Fin b) = (a < b)"
| "flt NaN _ = False"
| "flt _ NaN = False"
| "flt PInf _ = False"
| "flt _ NInf = False"
| "flt NInf _ = True"
| "flt (Fin a) PInf = True"

definition feq :: "fp \<Rightarrow> fp \<Rightarrow> bool" where
  "feq a b = (a \<noteq> NaN \<and> a = b)"

definition fle :: "fp \<Rightarrow> fp \<Rightarrow> bool" where
  "fle a b = (flt a b \<or> feq a b)"


section \<open>Andrew's monotone chain\<close>

text \<open>
  \<^verbatim>\<open>struct PointAndrews { coord_t x; coord_t y; uint64_t index; }\<close> with its
  \<^verbatim>\<open>operator<\<close>. The index of a point is a position in a container, so it stays far
  below \<open>2 ^ 64\<close> and is a natural number here.
\<close>

record PointAndrews =
  pa_x :: fp
  pa_y :: fp
  pa_index :: nat

definition point_less :: "PointAndrews \<Rightarrow> PointAndrews \<Rightarrow> bool" where
  "point_less p q = (flt (pa_x p) (pa_x q) \<or> (feq (pa_x p) (pa_x q) \<and> flt (pa_y p) (pa_y q)))"

definition cross :: "PointAndrews \<Rightarrow> PointAndrews \<Rightarrow> PointAndrews \<Rightarrow> fp" where
  "cross Org A B =
     fsub (fmul (fsub (pa_x A) (pa_x Org)) (fsub (pa_y B) (pa_y Org)))
          (fmul (fsub (pa_y A) (pa_y Org)) (fsub (pa_x B) (pa_x Org)))"

text \<open>
  \<^verbatim>\<open>sort(points.begin(), points.end())\<close> orders the points by \<^verbatim>\<open>operator<\<close>. The order in
  which \<^verbatim>\<open>std::sort\<close> leaves points that compare equal is not fixed by the language;
  the model is an insertion sort that keeps them in their input order.
\<close>

fun insert_point :: "PointAndrews \<Rightarrow> PointAndrews list \<Rightarrow> PointAndrews list" where
  "insert_point p [] = [p]"
| "insert_point p (q # qs) = (if point_less q p then q # insert_point p qs else p # q # qs)"

definition sort_points :: "PointAndrews list \<Rightarrow> PointAndrews list" where
  "sort_points ps = foldr insert_point ps []"

text \<open>
  \<^verbatim>\<open>std::vector::resize\<close>: the vector is cut, or filled up with value-initialised
  elements.
\<close>

definition zero_point :: PointAndrews where
  "zero_point = \<lparr>pa_x = Fin 0, pa_y = Fin 0, pa_index = 0\<rparr>"

definition resize :: "nat \<Rightarrow> PointAndrews list \<Rightarrow> PointAndrews list" where
  "resize m xs = take m xs @ replicate (m - length xs) zero_point"

text \<open>
  The inner loop \<^verbatim>\<open>while (k >= t && cross(hull[k-2], hull[k-1], p) <= 0) k--;\<close> with
  \<open>t = 2\<close> for the lower chain and \<open>t = k + 1\<close> (the value of \<open>k\<close> when the upper loop
  starts) for the upper chain. In both loops \<open>t\<close> is positive, so the test fails at
  \<open>k = 0\<close>.
\<close>

fun pop_while :: "nat \<Rightarrow> PointAndrews list \<Rightarrow> nat \<Rightarrow> PointAndrews \<Rightarrow> nat" where
  "pop_while t h 0 p = 0"
| "pop_while t h (Suc k) p =
     (if t \<le> Suc k \<and> fle (cross (h ! (Suc k - 2)) (h ! (Suc k - 1)) p) (Fin 0)
      then pop_while t h k p else Suc k)"

text \<open>One round of either outer loop: pop, then \<^verbatim>\<open>hull[k++] = p\<close>.\<close>

definition chain_step :: "nat \<Rightarrow> PointAndrews list \<times> nat \<Rightarrow> PointAndrews \<Rightarrow> PointAndrews list \<times> nat" where
  "chain_step t s p = (let k = pop_while t (fst s) (snd s) p in ((fst s)[k := p], Suc k))"

text \<open>
  \<^verbatim>\<open>AndrewsConvex_hull(hull, points)\<close>: the result is the pair of the hull and of the
  vector \<open>points\<close> as the call leaves it (sorted, when there are more than three points).
  The lower loop visits \<open>points[0], ..., points[n-1]\<close>; the upper loop visits
  \<open>points[n-2], ..., points[0]\<close>.
\<close>

definition AndrewsConvex_hull :: "PointAndrews list \<Rightarrow> PointAndrews list \<times> PointAndrews list" where
  "AndrewsConvex_hull points =
     (let n = length points in
      if n \<le> 3 then (map (\<lambda>count. points ! count) [0..<n], points)
      else
        let hull0 = resize (2 * n) [];
            sorted = sort_points points;
            lower = foldl (chain_step 2) (hull0, 0) sorted;
            upper = foldl (chain_step (snd lower + 1)) lower (rev (butlast sorted))
        in (resize (snd upper - 1) (fst upper), sorted))"

section \<open>Point clouds and the library\<close>

text \<open>
  \<^verbatim>\<open>pcl::PointXYZ\<close> has three \<^verbatim>\<open>float\<close> fields; a \<^verbatim>\<open>pcl::PointCloud\<close> is the vector of
  its points. A shared pointer to a cloud is an \<open>option\<close>: \<open>None\<close> is \<^verbatim>\<open>nullptr\<close>.
  An \<^verbatim>\<open>Eigen::Vector3d\<close> is a triple.
\<close>

record PointXYZ =
  xyz_x :: fp
  xyz_y :: fp
  xyz_z :: fp

type_synonym cloud = "PointXYZ list"

type_synonym vec3 = "fp \<times> fp \<times> fp"

text \<open>
  The Point Cloud Library is not part of the repository. The three capabilities the
  engine calls are parameters of the model:
  \<^item> \<^verbatim>\<open>pcl::ProjectInliers\<close> with a plane model: the model coefficients and the input
    cloud give the projected cloud;
  \<^item> \<^verbatim>\<open>pcl::ConcaveHull\<close>: the keep-information flag, the alpha value and the input
    cloud give the reconstructed hull vertices and the hull point indices;
  \<^item> \<^verbatim>\<open>pcl::isXYPointIn2DXYPolygon\<close>: a point and a polygon give a truth value.
\<close>

record pcl =
  ProjectInliers :: "fp list \<Rightarrow> cloud \<Rightarrow> cloud"
  ConcaveHull :: "bool \<Rightarrow> fp \<Rightarrow> cloud \<Rightarrow> cloud \<times> int list"
  isXYPointIn2DXYPolygon :: "PointXYZ \<Rightarrow> cloud \<Rightarrow> bool"

section \<open>Outcomes\<close>

text \<open>
  A call returns a value, or ends the process with \<^verbatim>\<open>exit(status)\<close>, or runs into
  behaviour the language leaves undefined (a read past the end of a vector, a null
  pointer dereferenced). What is written to \<^verbatim>\<open>std::cout\<close> and \<^verbatim>\<open>std::cerr\<close> is not
  modelled.
\<close>

datatype 'a outcome = Returned 'a | Exited int | Undefined

definition and_then :: "'a outcome \<Rightarrow> ('a \<Rightarrow> 'b outcome) \<Rightarrow> 'b outcome" where
  "and_then m f = (case m of Returned a \<Rightarrow> f a | Exited n \<Rightarrow> Exited n | Undefined \<Rightarrow> Undefined)"

definition deref :: "'a option \<Rightarrow> 'a outcome" where
  "deref p = (case p of None \<Rightarrow> Undefined | Some a \<Rightarrow> Returned a)"

section \<open>The engine\<close>

text \<open>
  The member variables of \<^verbatim>\<open>class HullOverlap\<close>. The plane coefficients \<^verbatim>\<open>a, b, c, d\<close>
  are the fields \<open>plane_a\<close> to \<open>plane_d\<close>. The vectors of \<^verbatim>\<open>uint64_t\<close> indices hold
  positions in a cloud and are lists of natural numbers; the \<^verbatim>\<open>pcl::PointIndices\<close>
  hold \<^verbatim>\<open>int\<close>.
\<close>

record HullOverlap =
  line1 :: cloud
  line2 :: cloud
  plane_a :: fp
  plane_b :: fp
  plane_c :: fp
  plane_d :: fp
  hullMethod :: string
  alphaLine1 :: fp
  alphaLine2 :: fp
  coefficients :: "fp list"
  line1InPlane :: "cloud option"
  line2InPlane :: "cloud option"
  line1InPlane2D :: "cloud option"
  line2InPlane2D :: "cloud option"
  hull1Vertices :: "cloud option"
  hull2Vertices :: "cloud option"
  hull1PointIndices :: "int list"
  hull2PointIndices :: "int list"
  line1InBothHullPointIndices :: "nat list"
  line2InBothHullPointIndices :: "nat list"
  vector1 :: vec3
  vector2 :: vec3
  refPoint :: PointXYZ

text \<open>
  The constructor. An invalid method string ends the process: \<^verbatim>\<open>exit( 1 )\<close>.
\<close>

definition HullOverlap_new ::
  "cloud \<Rightarrow> cloud \<Rightarrow> fp \<Rightarrow> fp \<Rightarrow> fp \<Rightarrow> fp \<Rightarrow> string \<Rightarrow> fp \<Rightarrow> fp \<Rightarrow> HullOverlap outcome" where
  "HullOverlap_new line1In line2In a b c d method alpha1 alpha2 =
     (if method \<noteq> ''PCL ConcaveHull'' \<and> method \<noteq> ''Andrew's'' then Exited 1
      else Returned
        \<lparr>line1 = line1In, line2 = line2In,
         plane_a = a, plane_b = b, plane_c = c, plane_d = d,
         hullMethod = method,
         alphaLine1 = alpha1, alphaLine2 = alpha2,
         coefficients = [a, b, c, d],
         line1InPlane = Some [], line2InPlane = Some [],
         line1InPlane2D = Some [], line2InPlane2D = Some [],
         hull1Vertices = Some [], hull2Vertices = Some [],
         hull1PointIndices = [], hull2PointIndices = [],
         line1InBothHullPointIndices = [], line2InBothHullPointIndices = [],
         vector1 = (Fin 1, Fin 0, Fin 0), vector2 = (Fin 0, Fin 1, Fin 0),
         refPoint = \<lparr>xyz_x = Fin 0, xyz_y = Fin 0, xyz_z = Fin 0\<rparr>\<rparr>)"

subsection \<open>Projection and the basis\<close>

text \<open>
  \<^verbatim>\<open>createCloudFromProjectionInPlane(cloudIn, cloudOut)\<close>: \<^verbatim>\<open>cloudOut->clear()\<close> dereferences
  the output pointer; the result is the new content of the output cloud.
\<close>

definition createCloudFromProjectionInPlane ::
  "pcl \<Rightarrow> fp list \<Rightarrow> cloud \<Rightarrow> cloud option \<Rightarrow> cloud outcome" where
  "createCloudFromProjectionInPlane P coeffs cloudIn cloudOut =
     and_then (deref cloudOut) (\<lambda>_. Returned (ProjectInliers P coeffs cloudIn))"

definition vnorm :: "vec3 \<Rightarrow> fp" where
  "vnorm v = (case v of (v0, v1, v2) \<Rightarrow>
     fsqrt (fadd (fadd (fmul v0 v0) (fmul v1 v1)) (fmul v2 v2)))"

definition vdiv :: "vec3 \<Rightarrow> fp \<Rightarrow> vec3" where
  "vdiv v s = (case v of (v0, v1, v2) \<Rightarrow> (fdiv v0 s, fdiv v1 s, fdiv v2 s))"

definition vcross :: "vec3 \<Rightarrow> vec3 \<Rightarrow> vec3" where
  "vcross u v = (case u of (u0, u1, u2) \<Rightarrow> case v of (v0, v1, v2) \<Rightarrow>
     (fsub (fmul u1 v2) (fmul u2 v1),
      fsub (fmul u2 v0) (fmul u0 v2),
      fsub (fmul u0 v1) (fmul u1 v0)))"

text \<open>
  \<^verbatim>\<open>computeTwoVectorsAndRefPoint()\<close> reads \<^verbatim>\<open>line1InPlane->points[ 0 ]\<close> and
  \<^verbatim>\<open>line1InPlane->points[ nbPointLine1 - 1 ]\<close> with no test of the size: on an empty
  cloud both reads are past the end of the vector. The function has no error path of
  its own; the two normalisations are plain divisions.
\<close>

definition computeTwoVectorsAndRefPoint :: "HullOverlap \<Rightarrow> HullOverlap outcome" where
  "computeTwoVectorsAndRefPoint st =
     and_then (deref (line1InPlane st)) (\<lambda>pts.
       if pts = [] then Undefined
       else
         let first = pts ! 0;
             lastp = pts ! (length pts - 1);
             v1 = (fsub (xyz_x lastp) (xyz_x first),
                   fsub (xyz_y lastp) (xyz_y first),
                   fsub (xyz_z lastp) (xyz_z first));
             v1n = vdiv v1 (vnorm v1);
             normalToPlane = (plane_a st, plane_b st, plane_c st);
             v2 = vcross normalToPlane v1n;
             v2n = vdiv v2 (vnorm v2)
         in Returned (st\<lparr>refPoint := first, vector1 := v1n, vector2 := v2n\<rparr>))"

text \<open>\<^verbatim>\<open>createCloudInPlane2D(cloudIn, cloudOut)\<close>: both pointers are dereferenced.\<close>

definition point2D :: "HullOverlap \<Rightarrow> PointXYZ \<Rightarrow> PointXYZ" where
  "point2D st p =
     (let dx = fsub (xyz_x p) (xyz_x (refPoint st));
          dy = fsub (xyz_y p) (xyz_y (refPoint st));
          dz = fsub (xyz_z p) (xyz_z (refPoint st))
      in case vector1 st of (a0, a1, a2) \<Rightarrow> case vector2 st of (b0, b1, b2) \<Rightarrow>
         \<lparr>xyz_x = fadd (fadd (fmul dx a0) (fmul dy a1)) (fmul dz a2),
          xyz_y = fadd (fadd (fmul dx b0) (fmul dy b1)) (fmul dz b2),
          xyz_z = Fin 0\<rparr>)"

definition createCloudInPlane2D ::
  "HullOverlap \<Rightarrow> cloud option \<Rightarrow> cloud option \<Rightarrow> cloud outcome" where
  "createCloudInPlane2D st cloudIn cloudOut =
     and_then (deref cloudOut) (\<lambda>_.
     and_then (deref cloudIn) (\<lambda>pts.
       Returned (map (\<lambda>count. point2D st (pts ! count)) [0..<length pts])))"

subsection \<open>Hulls\<close>

text \<open>
  \<^verbatim>\<open>computeVerticesOfConcaveHull\<close>: the result is the new content of the vertex cloud and
  of the index list, which is left as it was when no information is kept.
\<close>

definition computeVerticesOfConcaveHull ::
  "pcl \<Rightarrow> cloud option \<Rightarrow> fp \<Rightarrow> cloud option \<Rightarrow> int list \<Rightarrow> bool \<Rightarrow> (cloud \<times> int list) outcome" where
  "computeVerticesOfConcaveHull P cloudIn alpha hullVertices hullPointIndices keepInformation =
     and_then (deref hullVertices) (\<lambda>_.
     and_then (deref cloudIn) (\<lambda>pts.
       let r = ConcaveHull P keepInformation alpha pts
       in Returned (fst r, if keepInformation then snd r else hullPointIndices)))"

text \<open>\<^verbatim>\<open>static_cast< int >\<close> of a \<^verbatim>\<open>uint64_t\<close>: the low 32 bits, read as a signed number.\<close>

definition to_int :: "nat \<Rightarrow> int" where
  "to_int n = sint (word_of_nat n :: 32 word)"

text \<open>
  \<^verbatim>\<open>computeVerticesOfHullAndrews\<close>. Its three loops are written
  \<^verbatim>\<open>for ( uint64_t count; count < ...; count++ )\<close>: the counter has no initialiser, so
  each loop starts from an indeterminate value. The three start values are the
  argument \<open>start\<close> of the model; a loop whose start value is not below its bound does
  not run.
\<close>

definition computeVerticesOfHullAndrews ::
  "nat \<times> nat \<times> nat \<Rightarrow> cloud option \<Rightarrow> cloud option \<Rightarrow> int list \<Rightarrow> bool \<Rightarrow> (cloud \<times> int list) outcome" where
  "computeVerticesOfHullAndrews start cloudIn hullVertices hullPointIndices keepInformation =
     (case start of (count1, count2, count3) \<Rightarrow>
      and_then (deref cloudIn) (\<lambda>pts.
      and_then (deref hullVertices) (\<lambda>_.
        let points = map (\<lambda>count. \<lparr>pa_x = xyz_x (pts ! count), pa_y = xyz_y (pts ! count),
                                     pa_index = count\<rparr>) [count1..<length pts];
            hullAndrews = fst (AndrewsConvex_hull points);
            vertices = map (\<lambda>count. \<lparr>xyz_x = pa_x (hullAndrews ! count),
                                       xyz_y = pa_y (hullAndrews ! count),
                                       xyz_z = Fin 0\<rparr>) [count2..<length hullAndrews];
            indices = map (\<lambda>count. to_int (pa_index (hullAndrews ! count)))
                        [count3..<length hullAndrews]
        in Returned (vertices, if keepInformation then indices else hullPointIndices))))"

subsection \<open>Classification\<close>

text \<open>
  The three loops over \<^verbatim>\<open>count = 0, ..., cloudIn->points.size() - 1\<close>. The hull pointer
  is dereferenced in the loop body; \<^verbatim>\<open>lineOriginal->points[ count ]\<close> is read only for
  a point found inside, and is past the end of the vector when the original line is
  shorter than the cloud.
\<close>

fun findPointsInHull_loop ::
  "pcl \<Rightarrow> cloud \<Rightarrow> cloud \<Rightarrow> cloud option \<Rightarrow> nat list \<Rightarrow> cloud \<times> nat list \<Rightarrow> (cloud \<times> nat list) outcome" where
  "findPointsInHull_loop P lineOriginal cloudIn hullVertices [] acc = Returned acc"
| "findPointsInHull_loop P lineOriginal cloudIn hullVertices (count # rest) acc =
     and_then (deref hullVertices) (\<lambda>hv.
       if isXYPointIn2DXYPolygon P (cloudIn ! count) hv
       then if count < length lineOriginal
            then findPointsInHull_loop P lineOriginal cloudIn hullVertices rest
                   (fst acc @ [lineOriginal ! count], snd acc @ [count])
            else Undefined
       else findPointsInHull_loop P lineOriginal cloudIn hullVertices rest acc)"

definition findPointsInHull ::
  "pcl \<Rightarrow> cloud \<Rightarrow> cloud option \<Rightarrow> cloud option \<Rightarrow> cloud option \<Rightarrow> (cloud \<times> nat list) outcome" where
  "findPointsInHull P lineOriginal cloudIn cloudOut hullVertices =
     and_then (deref cloudOut) (\<lambda>_.
     and_then (deref cloudIn) (\<lambda>pts.
       findPointsInHull_loop P lineOriginal pts hullVertices [0..<length pts] ([], [])))"

fun findPointsInHullOnlyPointIndices_loop ::
  "pcl \<Rightarrow> cloud \<Rightarrow> cloud option \<Rightarrow> nat list \<Rightarrow> nat list \<Rightarrow> nat list outcome" where
  "findPointsInHullOnlyPointIndices_loop P cloudIn hullVertices [] acc = Returned acc"
| "findPointsInHullOnlyPointIndices_loop P cloudIn hullVertices (count # rest) acc =
     and_then (deref hullVertices) (\<lambda>hv.
       if isXYPointIn2DXYPolygon P (cloudIn ! count) hv
       then findPointsInHullOnlyPointIndices_loop P cloudIn hullVertices rest (acc @ [count])
       else findPointsInHullOnlyPointIndices_loop P cloudIn hullVertices rest acc)"

definition findPointsInHullOnlyPointIndices ::
  "pcl \<Rightarrow> cloud option \<Rightarrow> cloud option \<Rightarrow> nat list outcome" where
  "findPointsInHullOnlyPointIndices P cloudIn hullVertices =
     and_then (deref cloudIn) (\<lambda>pts.
       findPointsInHullOnlyPointIndices_loop P pts hullVertices [0..<length pts] [])"

fun findPointsInHullOnlyPoints_loop ::
  "pcl \<Rightarrow> cloud \<Rightarrow> cloud \<Rightarrow> cloud option \<Rightarrow> nat list \<Rightarrow> cloud \<Rightarrow> cloud outcome" where
  "findPointsInHullOnlyPoints_loop P lineOriginal cloudIn hullVertices [] acc = Returned acc"
| "findPointsInHullOnlyPoints_loop P lineOriginal cloudIn hullVertices (count # rest) acc =
     and_then (deref hullVertices) (\<lambda>hv.
       if isXYPointIn2DXYPolygon P (cloudIn ! count) hv
       then if count < length lineOriginal
            then findPointsInHullOnlyPoints_loop P lineOriginal cloudIn hullVertices rest
                   (acc @ [lineOriginal ! count])
            else Undefined
       else findPointsInHullOnlyPoints_loop P lineOriginal cloudIn hullVertices rest acc)"

definition findPointsInHullOnlyPoints ::
  "pcl \<Rightarrow> cloud \<Rightarrow> cloud option \<Rightarrow> cloud option \<Rightarrow> cloud option \<Rightarrow> cloud outcome" where
  "findPointsInHullOnlyPoints P lineOriginal cloudIn cloudOut hullVertices =
     and_then (deref cloudOut) (\<lambda>_.
     and_then (deref cloudIn) (\<lambda>pts.
       findPointsInHullOnlyPoints_loop P lineOriginal pts hullVertices [0..<length pts] []))"

subsection \<open>The computation\<close>

text \<open>
  \<^verbatim>\<open>computeHullsAndPointsInBothHulls\<close>, in the three parts of its body. The two output
  clouds are the caller's; they are taken to be distinct from each other and from the
  clouds the engine holds. The first part projects both lines and expresses them in the
  plane; in minimal-memory mode the projected clouds are released.
\<close>

definition project_lines :: "pcl \<Rightarrow> bool \<Rightarrow> HullOverlap \<Rightarrow> HullOverlap outcome" where
  "project_lines P minimalMemory st0 =
     and_then (createCloudFromProjectionInPlane P (coefficients st0) (line1 st0) (line1InPlane st0)) (\<lambda>c1.
     and_then (computeTwoVectorsAndRefPoint (st0\<lparr>line1InPlane := Some c1\<rparr>)) (\<lambda>st1.
     and_then (createCloudInPlane2D st1 (line1InPlane st1) (line1InPlane2D st1)) (\<lambda>d1.
       let st2 = st1\<lparr>line1InPlane2D := Some d1\<rparr>;
           st3 = (if minimalMemory then st2\<lparr>line1InPlane := None\<rparr> else st2)
       in
     and_then (createCloudFromProjectionInPlane P (coefficients st3) (line2 st3) (line2InPlane st3)) (\<lambda>c2.
       let st4 = st3\<lparr>line2InPlane := Some c2\<rparr> in
     and_then (createCloudInPlane2D st4 (line2InPlane st4) (line2InPlane2D st4)) (\<lambda>d2.
       let st5 = st4\<lparr>line2InPlane2D := Some d2\<rparr>
       in Returned (if minimalMemory then st5\<lparr>line2InPlane := None\<rparr> else st5))))))"

text \<open>
  The second part finds the two hulls with the method the engine was built with; a
  method string that is neither of the two ends the process. \<open>start1\<close> and \<open>start2\<close>
  are the indeterminate start values of the counters in the two calls of
  \<^verbatim>\<open>computeVerticesOfHullAndrews\<close>.
\<close>

definition compute_hulls ::
  "pcl \<Rightarrow> nat \<times> nat \<times> nat \<Rightarrow> nat \<times> nat \<times> nat \<Rightarrow> bool \<Rightarrow> HullOverlap \<Rightarrow> HullOverlap outcome" where
  "compute_hulls P start1 start2 minimalMemory st =
     (if hullMethod st = ''PCL ConcaveHull'' then
        and_then (computeVerticesOfConcaveHull P (line1InPlane2D st) (alphaLine1 st)
                    (hull1Vertices st) (hull1PointIndices st) (\<not> minimalMemory)) (\<lambda>r1.
          let st1 = st\<lparr>hull1Vertices := Some (fst r1), hull1PointIndices := snd r1\<rparr> in
        and_then (computeVerticesOfConcaveHull P (line2InPlane2D st1) (alphaLine2 st1)
                    (hull2Vertices st1) (hull2PointIndices st1) (\<not> minimalMemory)) (\<lambda>r2.
          Returned (st1\<lparr>hull2Vertices := Some (fst r2), hull2PointIndices := snd r2\<rparr>)))
      else if hullMethod st = ''Andrew's'' then
        and_then (computeVerticesOfHullAndrews start1 (line1InPlane2D st)
                    (hull1Vertices st) (hull1PointIndices st) (\<not> minimalMemory)) (\<lambda>r1.
          let st1 = st\<lparr>hull1Vertices := Some (fst r1), hull1PointIndices := snd r1\<rparr> in
        and_then (computeVerticesOfHullAndrews start2 (line2InPlane2D st1)
                    (hull2Vertices st1) (hull2PointIndices st1) (\<not> minimalMemory)) (\<lambda>r2.
          Returned (st1\<lparr>hull2Vertices := Some (fst r2), hull2PointIndices := snd r2\<rparr>)))
      else Exited 1)"

text \<open>
  The third part classifies the points of each line against the hull of the other. The
  result is the pair of counts, the two output clouds as the call leaves them, and the
  engine.
\<close>

definition classify ::
  "pcl \<Rightarrow> cloud option \<Rightarrow> cloud option \<Rightarrow> bool \<Rightarrow> HullOverlap
     \<Rightarrow> ((nat \<times> nat) \<times> cloud option \<times> cloud option \<times> HullOverlap) outcome" where
  "classify P line1InBothHull line2InBothHull minimalMemory st =
     (if line1InBothHull \<noteq> None \<and> line2InBothHull \<noteq> None then
        if minimalMemory then
          and_then (findPointsInHullOnlyPoints P (line1 st) (line1InPlane2D st)
                      line1InBothHull (hull2Vertices st)) (\<lambda>o1.
            let st1 = st\<lparr>line1InPlane2D := None, hull2Vertices := None\<rparr> in
          and_then (findPointsInHullOnlyPoints P (line2 st1) (line2InPlane2D st1)
                      line2InBothHull (hull1Vertices st1)) (\<lambda>o2.
            let st2 = st1\<lparr>line2InPlane2D := None, hull1Vertices := None\<rparr>
            in Returned ((length o1, length o2), Some o1, Some o2, st2)))
        else
          and_then (findPointsInHull P (line1 st) (line1InPlane2D st)
                      line1InBothHull (hull2Vertices st)) (\<lambda>r1.
            let st1 = st\<lparr>line1InBothHullPointIndices := snd r1\<rparr> in
          and_then (findPointsInHull P (line2 st1) (line2InPlane2D st1)
                      line2InBothHull (hull1Vertices st1)) (\<lambda>r2.
            let st2 = st1\<lparr>line2InBothHullPointIndices := snd r2\<rparr>
            in Returned ((length (fst r1), length (fst r2)), Some (fst r1), Some (fst r2), st2)))
      else
        and_then (findPointsInHullOnlyPointIndices P (line1InPlane2D st) (hull2Vertices st)) (\<lambda>i1.
          let st1 = st\<lparr>line1InBothHullPointIndices := i1\<rparr> in
        and_then (findPointsInHullOnlyPointIndices P (line2InPlane2D st1) (hull1Vertices st1)) (\<lambda>i2.
          let st2 = st1\<lparr>line2InBothHullPointIndices := i2\<rparr>
          in Returned ((length i1, length i2), line1InBothHull, line2InBothHull, st2))))"

definition computeHullsAndPointsInBothHulls ::
  "pcl \<Rightarrow> nat \<times> nat \<times> nat \<Rightarrow> nat \<times> nat \<times> nat \<Rightarrow> cloud option \<Rightarrow> cloud option \<Rightarrow> bool \<Rightarrow> HullOverlap
     \<Rightarrow> ((nat \<times> nat) \<times> cloud option \<times> cloud option \<times> HullOverlap) outcome" where
  "computeHullsAndPointsInBothHulls P start1 start2 line1InBothHull line2InBothHull minimalMemory st =
     (let out1 = map_option (\<lambda>_. []) line1InBothHull;
          out2 = map_option (\<lambda>_. []) line2InBothHull
      in
      and_then (project_lines P minimalMemory st) (\<lambda>st1.
      and_then (compute_hulls P start1 start2 minimalMemory st1) (\<lambda>st2.
        classify P out1 out2 minimalMemory st2)))"

definition computePointsInBothHulls ::
  "pcl \<Rightarrow> nat \<times> nat \<times> nat \<Rightarrow> nat \<times> nat \<times> nat \<Rightarrow> cloud option \<Rightarrow> cloud option \<Rightarrow> HullOverlap
     \<Rightarrow> ((nat \<times> nat) \<times> cloud option \<times> cloud option \<times> HullOverlap) outcome" where
  "computePointsInBothHulls P start1 start2 line1InBothHull line2InBothHull st =
     computeHullsAndPointsInBothHulls P start1 start2 line1InBothHull line2InBothHull True st"

subsection \<open>Accessors\<close>

text \<open>
  The line number is a C \<^verbatim>\<open>int\<close>; it is only compared, so it is an integer here. A
  pointer result is an \<open>option\<close>, \<open>None\<close> for \<^verbatim>\<open>nullptr\<close>.
\<close>

definition getConstPtrlineInBothHullPointIndices :: "HullOverlap \<Rightarrow> int \<Rightarrow> nat list option" where
  "getConstPtrlineInBothHullPointIndices st lineNumber =
     (if lineNumber < 0 \<or> lineNumber > 1 then None
      else if lineNumber = 0 then Some (line1InBothHullPointIndices st)
      else Some (line2InBothHullPointIndices st))"

definition getConstPtrlineInPlane2D :: "HullOverlap \<Rightarrow> int \<Rightarrow> cloud option" where
  "getConstPtrlineInPlane2D st lineNumber =
     (if lineNumber < 0 \<or> lineNumber > 1 then None
      else if lineNumber = 0 then line1InPlane2D st
      else line2InPlane2D st)"

definition getConstPtrlineInPlane3D :: "HullOverlap \<Rightarrow> int \<Rightarrow> cloud option" where
  "getConstPtrlineInPlane3D st lineNumber =
     (if lineNumber < 0 \<or> lineNumber > 1 then None
      else if lineNumber = 0 then line1InPlane st
      else line2InPlane st)"

definition getConstPtrVerticesIndices :: "HullOverlap \<Rightarrow> int \<Rightarrow> int list option" where
  "getConstPtrVerticesIndices st lineNumber =
     (if lineNumber < 0 \<or> lineNumber > 1 then None
      else if lineNumber = 0 then Some (hull1PointIndices st)
      else Some (hull2PointIndices st))"

definition getNbPointsInOverlap :: "HullOverlap \<Rightarrow> int \<Rightarrow> nat" where
  "getNbPointsInOverlap st lineNumber =
     (if lineNumber < 0 \<or> lineNumber > 1 then 0
      else if lineNumber = 0 then length (line1InBothHullPointIndices st)
      else length (line2InBothHullPointIndices st))"

subsection \<open>Bounding boxes\<close>

text \<open>
  \<^verbatim>\<open>std::numeric_limits<double>::max()\<close> is the largest finite double;
  \<^verbatim>\<open>std::numeric_limits<double>::min()\<close> is the smallest positive normalised double.
\<close>

definition DBL_MAX :: real where
  "DBL_MAX = (2 - 1 / 2 ^ 52) * 2 ^ 1023"

definition DBL_MIN :: real where
  "DBL_MIN = 1 / 2 ^ 1022"

text \<open>
  One loop of \<^verbatim>\<open>getMinMaxPointsInOverlapPlane2D\<close> over an index list: the cloud pointer
  is dereferenced and the cloud is read at the index, in each round.
\<close>

fun minmax2D_loop :: "cloud option \<Rightarrow> nat list \<Rightarrow> fp \<times> fp \<times> fp \<times> fp \<Rightarrow> (fp \<times> fp \<times> fp \<times> fp) outcome" where
  "minmax2D_loop cl [] acc = Returned acc"
| "minmax2D_loop cl (i # rest) (xMin, xMax, yMin, yMax) =
     and_then (deref cl) (\<lambda>pts.
       if i < length pts then
         let p = pts ! i;
             xMin' = (if flt (xyz_x p) xMin then xyz_x p else xMin);
             xMax' = (if flt xMax (xyz_x p) then xyz_x p else xMax);
             yMin' = (if flt (xyz_y p) yMin then xyz_y p else yMin);
             yMax' = (if flt yMax (xyz_y p) then xyz_y p else yMax)
         in minmax2D_loop cl rest (xMin', xMax', yMin', yMax')
       else Undefined)"

text \<open>
  The result is the returned flag and the two points passed by reference as the call
  leaves them.
\<close>

definition getMinMaxPointsInOverlapPlane2D ::
  "HullOverlap \<Rightarrow> PointXYZ \<Rightarrow> PointXYZ \<Rightarrow> (bool \<times> PointXYZ \<times> PointXYZ) outcome" where
  "getMinMaxPointsInOverlapPlane2D st minPt maxPt =
     (if length (line1InBothHullPointIndices st) > 0 \<and> length (line2InBothHullPointIndices st) > 0 then
        and_then (minmax2D_loop (line1InPlane2D st) (line1InBothHullPointIndices st)
                    (Fin DBL_MAX, Fin DBL_MIN, Fin DBL_MAX, Fin DBL_MIN)) (\<lambda>acc1.
        and_then (minmax2D_loop (line2InPlane2D st) (line2InBothHullPointIndices st) acc1) (\<lambda>acc2.
          case acc2 of (xMin, xMax, yMin, yMax) \<Rightarrow>
            Returned (True,
              \<lparr>xyz_x = xMin, xyz_y = yMin, xyz_z = Fin 0\<rparr>,
              \<lparr>xyz_x = xMax, xyz_y = yMax, xyz_z = Fin 0\<rparr>)))
      else Returned (False, minPt, maxPt))"

fun minmax3D_loop ::
  "cloud option \<Rightarrow> nat list \<Rightarrow> fp \<times> fp \<times> fp \<times> fp \<times> fp \<times> fp \<Rightarrow> (fp \<times> fp \<times> fp \<times> fp \<times> fp \<times> fp) outcome" where
  "minmax3D_loop cl [] acc = Returned acc"
| "minmax3D_loop cl (i # rest) (xMin, xMax, yMin, yMax, zMin, zMax) =
     and_then (deref cl) (\<lambda>pts.
       if i < length pts then
         let p = pts ! i;
             xMin' = (if flt (xyz_x p) xMin then xyz_x p else xMin);
             xMax' = (if flt xMax (xyz_x p) then xyz_x p else xMax);
             yMin' = (if flt (xyz_y p) yMin then xyz_y p else yMin);
             yMax' = (if flt yMax (xyz_y p) then xyz_y p else yMax);
             zMin' = (if flt (xyz_z p) zMin then xyz_z p else zMin);
             zMax' = (if flt zMax (xyz_z p) then xyz_z p else zMax)
         in minmax3D_loop cl rest (xMin', xMax', yMin', yMax', zMin', zMax')
       else Undefined)"

definition getMinMaxPointsInOverlapPlane3D ::
  "HullOverlap \<Rightarrow> PointXYZ \<Rightarrow> PointXYZ \<Rightarrow> (bool \<times> PointXYZ \<times> PointXYZ) outcome" where
  "getMinMaxPointsInOverlapPlane3D st minPt maxPt =
     (if length (line1InBothHullPointIndices st) > 0 \<and> length (line2InBothHullPointIndices st) > 0 then
        and_then (minmax3D_loop (line1InPlane st) (line1InBothHullPointIndices st)
                    (Fin DBL_MAX, Fin DBL_MIN, Fin DBL_MAX, Fin DBL_MIN, Fin DBL_MAX, Fin DBL_MIN)) (\<lambda>acc1.
        and_then (minmax3D_loop (line2InPlane st) (line2InBothHullPointIndices st) acc1) (\<lambda>acc2.
          case acc2 of (xMin, xMax, yMin, yMax, zMin, zMax) \<Rightarrow>
            Returned (True,
              \<lparr>xyz_x = xMin, xyz_y = yMin, xyz_z = zMin\<rparr>,
              \<lparr>xyz_x = xMax, xyz_y = yMax, xyz_z = zMax\<rparr>)))
      else Returned (False, minPt, maxPt))"

section \<open>Concrete inputs\<close>

text \<open>
  A point with finite coordinates, and an engine as the constructor leaves it for the
  plane \<open>z = 0\<close>, to run the model on concrete inputs.
\<close>

definition pt :: "real \<Rightarrow> real \<Rightarrow> real \<Rightarrow> PointXYZ" where
  "pt a b c = \<lparr>xyz_x = Fin a, xyz_y = Fin b, xyz_z = Fin c\<rparr>"

definition engine_z0 :: "cloud \<Rightarrow> cloud \<Rightarrow> string \<Rightarrow> HullOverlap" where
  "engine_z0 l1 l2 method =
     \<lparr>line1 = l1, line2 = l2,
      plane_a = Fin 0, plane_b = Fin 0, plane_c = Fin 1, plane_d = Fin 0,
      hullMethod = method,
      alphaLine1 = Fin 1, alphaLine2 = Fin 1,
      coefficients = [Fin 0, Fin 0, Fin 1, Fin 0],
      line1InPlane = Some [], line2InPlane = Some [],
      line1InPlane2D = Some [], line2InPlane2D = Some [],
      hull1Vertices = Some [], hull2Vertices = Some [],
      hull1PointIndices = [], hull2PointIndices = [],
      line1InBothHullPointIndices = [], line2InBothHullPointIndices = [],
      vector1 = (Fin 1, Fin 0, Fin 0), vector2 = (Fin 0, Fin 1, Fin 0),
      refPoint = \<lparr>xyz_x = Fin 0, xyz_y = Fin 0, xyz_z = Fin 0\<rparr>\<rparr>"


text \<open>Two lines in the plane \<open>z = 0\<close>, of five and of three points.\<close>

definition survey :: HullOverlap where
  "survey = engine_z0 [pt 0 0 0, pt (-4) (-4) 0, pt (-4) 4 0, pt (-2) (-1) 0, pt 1 0 0]
                   [pt (-3) (-2) 0, pt (-1) (-2) 0, pt (-2) 0 0] ''Andrew's''"

text \<open>
  An instance of the library for that plane: the projection onto \<open>z = 0\<close> sets the third
  coordinate to zero, the concave hull keeps every input point whatever the flag and
  alpha, and the polygon test is the even-odd rule over the edges of the polygon,
  starting with the edge from its last to its first vertex.
\<close>

definition edge_crossed :: "PointXYZ \<Rightarrow> PointXYZ \<Rightarrow> PointXYZ \<Rightarrow> bool" where
  "edge_crossed p old new =
     (let x1 = (if flt (xyz_x old) (xyz_x new) then xyz_x old else xyz_x new);
          y1 = (if flt (xyz_x old) (xyz_x new) then xyz_y old else xyz_y new);
          x2 = (if flt (xyz_x old) (xyz_x new) then xyz_x new else xyz_x old);
          y2 = (if flt (xyz_x old) (xyz_x new) then xyz_y new else xyz_y old)
      in (flt (xyz_x new) (xyz_x p) = fle (xyz_x p) (xyz_x old))
         \<and> flt (fmul (fsub (xyz_y p) y1) (fsub x2 x1)) (fmul (fsub y2 y1) (fsub (xyz_x p) x1)))"

fun even_odd :: "PointXYZ \<Rightarrow> PointXYZ \<Rightarrow> cloud \<Rightarrow> bool \<Rightarrow> bool" where
  "even_odd p old [] inside = inside"
| "even_odd p old (new # rest) inside =
     even_odd p new rest (if edge_crossed p old new then \<not> inside else inside)"

definition pcl_z0 :: pcl where
  "pcl_z0 =
     \<lparr>ProjectInliers = (\<lambda>coeffs pts. map (\<lambda>p. p\<lparr>xyz_z := Fin 0\<rparr>) pts),
      ConcaveHull = (\<lambda>keep alpha pts. (pts, map int [0..<length pts])),
      isXYPointIn2DXYPolygon = (\<lambda>p poly. poly \<noteq> [] \<and> even_odd p (last poly) poly False)\<rparr>"

section \<open>Derived notions\<close>

text \<open>
  Names for the values the engine computes, used to state what its parts return: the
  basis found from the first projected line, the two lines expressed in that basis, the
  three lists built by the loops of \<^verbatim>\<open>computeVerticesOfHullAndrews\<close>, and the part of
  a result of \<^verbatim>\<open>computeHullsAndPointsInBothHulls\<close> that the caller sees: the pair of counts
  and the two output clouds.
\<close>

definition basis_of :: "HullOverlap \<Rightarrow> cloud \<Rightarrow> PointXYZ \<times> vec3 \<times> vec3" where
  "basis_of st pts =
     (let first = pts ! 0;
             lastp = pts ! (length pts - 1);
             v1 = (fsub (xyz_x lastp) (xyz_x first),
                   fsub (xyz_y lastp) (xyz_y first),
                   fsub (xyz_z lastp) (xyz_z first));
             v1n = vdiv v1 (vnorm v1);
             normalToPlane = (plane_a st, plane_b st, plane_c st);
             v2 = vcross normalToPlane v1n;
             v2n = vdiv v2 (vnorm v2)
         in (first, v1n, v2n))"

definition with_basis :: "HullOverlap \<Rightarrow> PointXYZ \<times> vec3 \<times> vec3 \<Rightarrow> HullOverlap" where
  "with_basis st b = st\<lparr>refPoint := fst b, vector1 := fst (snd b), vector2 := snd (snd b)\<rparr>"

definition flattened :: "HullOverlap \<Rightarrow> cloud \<Rightarrow> cloud \<Rightarrow> cloud" where
  "flattened st c1 c = map (point2D (with_basis st (basis_of st c1))) c"

definition overlap_result ::
  "(nat \<times> nat) \<times> cloud option \<times> cloud option \<times> HullOverlap \<Rightarrow> (nat \<times> nat) \<times> cloud option \<times> cloud option" where
  "overlap_result r = (fst r, fst (snd r), fst (snd (snd r)))"

definition hull_of :: "nat \<times> nat \<times> nat \<Rightarrow> cloud \<Rightarrow> PointAndrews list" where
  "hull_of start pts =
     fst (AndrewsConvex_hull
       (map (\<lambda>count. \<lparr>pa_x = xyz_x (pts ! count), pa_y = xyz_y (pts ! count), pa_index = count\<rparr>)
          [fst start..<length pts]))"

definition andrews_vertices :: "nat \<times> nat \<times> nat \<Rightarrow> cloud \<Rightarrow> cloud" where
  "andrews_vertices start pts =
     map (\<lambda>count. \<lparr>xyz_x = pa_x (hull_of start pts ! count), xyz_y = pa_y (hull_of start pts ! count),
                    xyz_z = Fin 0\<rparr>) [fst (snd start)..<length (hull_of start pts)]"

definition andrews_indices :: "nat \<times> nat \<times> nat \<Rightarrow> cloud \<Rightarrow> int list" where
  "andrews_indices start pts =
     map (\<lambda>count. to_int (pa_index (hull_of start pts ! count)))
       [snd (snd start)..<length (hull_of start pts)]"

definition hull_pair :: "pcl \<Rightarrow> nat \<times> nat \<times> nat \<Rightarrow> bool \<Rightarrow> string \<Rightarrow> fp \<Rightarrow> cloud \<Rightarrow> int list \<Rightarrow> cloud \<times> int list" where
  "hull_pair P start keep method alpha pts idx =
     (if method = ''PCL ConcaveHull''
      then (fst (ConcaveHull P keep alpha pts), if keep then snd (ConcaveHull P keep alpha pts) else idx)
      else (andrews_vertices start pts, if keep then andrews_indices start pts else idx))"

definition zero_or_nan :: "fp \<Rightarrow> bool" where
  "zero_or_nan a = (a = Fin 0 \<or> a = NaN)"


section \<open>The chains as stacks\<close>

text \<open>
  The part \<open>hull[0..k-1]\<close> of the array is a stack. \<open>pops\<close> is the inner loop and \<open>push\<close>
  one round of an outer loop on that stack, written as a list with the top first;
  \<open>chain_of\<close> runs the rounds over a list of points.
\<close>

fun pops :: "PointAndrews list \<Rightarrow> PointAndrews \<Rightarrow> PointAndrews list" where
  "pops (b # a # st) c = (if fle (cross a b c) (Fin 0) then pops (a # st) c else b # a # st)"
| "pops st c = st"

definition push :: "PointAndrews list \<Rightarrow> PointAndrews \<Rightarrow> PointAndrews list" where
  "push st c = c # pops st c"

definition chain_of :: "PointAndrews list \<Rightarrow> PointAndrews list" where
  "chain_of ps = foldl push [] ps"





section \<open>The plane\<close>



type_synonym pt2 = "real \<times> real"




definition cr :: "pt2 \<Rightarrow> pt2 \<Rightarrow> pt2 \<Rightarrow> real" where
  "cr p a b = (fst a - fst p) * (snd b - snd p) - (snd a - snd p) * (fst b - fst p)"

definition lex_le :: "pt2 \<Rightarrow> pt2 \<Rightarrow> bool" where
  "lex_le p q = (fst p < fst q \<or> (fst p = fst q \<and> snd p \<le> snd q))"







definition neg :: "pt2 \<Rightarrow> pt2" where
  "neg p = (- fst p, - snd p)"




section \<open>Outcomes: basic facts\<close>

lemma and_then_Returned [simp]: "and_then (Returned a) f = f a"
  by (simp add: and_then_def)

lemma and_then_Exited [simp]: "and_then (Exited n) f = Exited n"
  by (simp add: and_then_def)

lemma and_then_Undefined [simp]: "and_then Undefined f = Undefined"
  by (simp add: and_then_def)

lemma deref_None [simp]: "deref None = Undefined"
  by (simp add: deref_def)

lemma deref_Some [simp]: "deref (Some a) = Returned a"
  by (simp add: deref_def)

lemma and_then_eq_Returned:
  "and_then m f = Returned r \<longleftrightarrow> (\<exists>a. m = Returned a \<and> f a = Returned r)"
  by (cases m) simp_all

lemma fsub_Fin [simp]: "fsub (Fin a) (Fin b) = Fin (a - b)"
  by (simp add: fsub_def)

lemma engine_z0_constructed:
  "HullOverlap_new l1 l2 (Fin 0) (Fin 0) (Fin 1) (Fin 0) ''Andrew's'' (Fin 1) (Fin 1)
     = Returned (engine_z0 l1 l2 ''Andrew's'')"
  by (simp add: HullOverlap_new_def engine_z0_def)

section \<open>The parts of the computation\<close>

lemma computeTwoVectorsAndRefPoint_eq:
  "computeTwoVectorsAndRefPoint st =
     (case line1InPlane st of None \<Rightarrow> Undefined
      | Some pts \<Rightarrow> if pts = [] then Undefined else Returned (with_basis st (basis_of st pts)))"
  by (simp add: computeTwoVectorsAndRefPoint_def basis_of_def with_basis_def Let_def split: option.split)

lemma map_nth_upt: "map (\<lambda>i. f (xs ! i)) [0..<length xs] = map f xs"
  by (rule nth_equalityI) simp_all

lemma createCloudInPlane2D_eq:
  "createCloudInPlane2D st (Some pts) (Some out) = Returned (map (point2D st) pts)"
  by (simp add: createCloudInPlane2D_def map_nth_upt)

lemma createCloudInPlane2D_None [simp]:
  "createCloudInPlane2D st cl None = Undefined"
  by (simp add: createCloudInPlane2D_def)

lemma createCloudFromProjectionInPlane_eq [simp]:
  "createCloudFromProjectionInPlane P cf cl None = Undefined"
  "createCloudFromProjectionInPlane P cf cl (Some out) = Returned (ProjectInliers P cf cl)"
  by (simp_all add: createCloudFromProjectionInPlane_def)

lemma project_lines_eq:
  "project_lines P mm st =
    (let c1 = ProjectInliers P (coefficients st) (line1 st);
         c2 = ProjectInliers P (coefficients st) (line2 st)
     in if line1InPlane st = None \<or> c1 = [] \<or> line1InPlane2D st = None
           \<or> line2InPlane st = None \<or> line2InPlane2D st = None then Undefined
        else Returned (with_basis st (basis_of st c1)
               \<lparr>line1InPlane := if mm then None else Some c1,
                line2InPlane := if mm then None else Some c2,
                line1InPlane2D := Some (flattened st c1 c1),
                line2InPlane2D := Some (flattened st c1 c2)\<rparr>))"
proof -
  show ?thesis
  proof (cases "line1InPlane st")
    case None
    then show ?thesis by (simp add: project_lines_def Let_def)
  next
    case l1: (Some a1)
    show ?thesis
    proof (cases "ProjectInliers P (coefficients st) (line1 st) = []")
      case True
      then show ?thesis using l1
        by (simp add: project_lines_def Let_def computeTwoVectorsAndRefPoint_eq)
    next
      case ne: False
      show ?thesis
      proof (cases "line1InPlane2D st")
        case None
        then show ?thesis using l1 ne
          by (simp add: project_lines_def Let_def computeTwoVectorsAndRefPoint_eq with_basis_def)
      next
        case d1: (Some a2)
        show ?thesis
        proof (cases "line2InPlane st")
          case None
          then show ?thesis using l1 ne d1
            by (simp add: project_lines_def Let_def computeTwoVectorsAndRefPoint_eq with_basis_def
                createCloudInPlane2D_eq)
        next
          case l2: (Some a3)
          show ?thesis
          proof (cases "line2InPlane2D st")
            case None
            then show ?thesis using l1 ne d1 l2
              by (simp add: project_lines_def Let_def computeTwoVectorsAndRefPoint_eq with_basis_def
                createCloudInPlane2D_eq)
          next
            case d2: (Some a4)
            then show ?thesis using l1 ne d1 l2
              by (simp add: project_lines_def Let_def computeTwoVectorsAndRefPoint_eq with_basis_def
                createCloudInPlane2D_eq flattened_def basis_of_def point2D_def)
          qed
        qed
      qed
    qed
  qed
qed






lemma computeVerticesOfHullAndrews_eq:
  "computeVerticesOfHullAndrews start cloudIn hv idx keep =
     (case cloudIn of None \<Rightarrow> Undefined
      | Some pts \<Rightarrow> (case hv of None \<Rightarrow> Undefined
          | Some _ \<Rightarrow> Returned (andrews_vertices start pts,
                                 if keep then andrews_indices start pts else idx)))"
  by (cases start)
     (simp add: computeVerticesOfHullAndrews_def hull_of_def andrews_vertices_def andrews_indices_def
      Let_def split: option.split)

lemma computeVerticesOfConcaveHull_eq:
  "computeVerticesOfConcaveHull P cloudIn alpha hv idx keep =
     (case hv of None \<Rightarrow> Undefined
      | Some _ \<Rightarrow> (case cloudIn of None \<Rightarrow> Undefined
          | Some pts \<Rightarrow> Returned (fst (ConcaveHull P keep alpha pts),
                                 if keep then snd (ConcaveHull P keep alpha pts) else idx)))"
  by (simp add: computeVerticesOfConcaveHull_def Let_def split: option.split)

lemma compute_hulls_eq:
  "compute_hulls P s1 s2 mm st =
     (if hullMethod st \<noteq> ''PCL ConcaveHull'' \<and> hullMethod st \<noteq> ''Andrew's'' then Exited 1
      else case (line1InPlane2D st, hull1Vertices st, line2InPlane2D st, hull2Vertices st) of
        (Some d1, Some _, Some d2, Some _) \<Rightarrow>
          (let r1 = hull_pair P s1 (\<not> mm) (hullMethod st) (alphaLine1 st) d1 (hull1PointIndices st);
               r2 = hull_pair P s2 (\<not> mm) (hullMethod st) (alphaLine2 st) d2 (hull2PointIndices st)
           in Returned (st\<lparr>hull1Vertices := Some (fst r1), hull1PointIndices := snd r1,
                           hull2Vertices := Some (fst r2), hull2PointIndices := snd r2\<rparr>))
      | _ \<Rightarrow> Undefined)"
proof -
  consider "hullMethod st = ''PCL ConcaveHull''" | "hullMethod st = ''Andrew's''"
    | "hullMethod st \<noteq> ''PCL ConcaveHull'' \<and> hullMethod st \<noteq> ''Andrew's''"
    by blast
  then show ?thesis
  proof cases
    case 1
    then show ?thesis
      by (cases "line1InPlane2D st"; cases "hull1Vertices st"; cases "line2InPlane2D st";
          cases "hull2Vertices st")
         (simp_all add: compute_hulls_def computeVerticesOfConcaveHull_eq hull_pair_def Let_def)
  next
    case 2
    then show ?thesis
      by (cases "line1InPlane2D st"; cases "hull1Vertices st"; cases "line2InPlane2D st";
          cases "hull2Vertices st")
         (simp_all add: compute_hulls_def computeVerticesOfHullAndrews_eq hull_pair_def Let_def)
  next
    case 3
    then show ?thesis by (simp add: compute_hulls_def)
  qed
qed





lemma project_lines_hullMethod:
  "project_lines P mm st = Returned st' \<Longrightarrow> hullMethod st' = hullMethod st"
  by (simp add: project_lines_eq Let_def with_basis_def split: if_splits) auto

section \<open>A run on concrete lines\<close>

lemma survey_hull1: "andrews_vertices (0, 0, 0) [pt 0 0 0, pt (- 4) (- 4) 0, pt (- 4) 4 0, pt (- 2) (- 1) 0, pt 1 0 0]
   = [pt (-4) (-4) 0, pt 1 0 0, pt (-4) 4 0]"
  by code_simp

lemma survey_indices1: "andrews_indices (0, 0, 0) [pt 0 0 0, pt (- 4) (- 4) 0, pt (- 4) 4 0, pt (- 2) (- 1) 0, pt 1 0 0]
   = [1, 4, 2]"
  by code_simp

lemma survey_hull2: "andrews_vertices (0, 0, 0) [pt (-3) (-2) 0, pt (-1) (-2) 0, pt (-2) 0 0]
   = [pt (-3) (-2) 0, pt (-1) (-2) 0, pt (-2) 0 0]"
  by code_simp

lemma survey_indices2: "andrews_indices (0, 0, 0) [pt (-3) (-2) 0, pt (-1) (-2) 0, pt (-2) 0 0]
   = [0, 1, 2]"
  by code_simp

lemma survey_inside2: "findPointsInHullOnlyPointIndices pcl_z0
     (Some [pt 0 0 0, pt (- 4) (- 4) 0, pt (- 4) 4 0, pt (- 2) (- 1) 0, pt 1 0 0])
     (Some [pt (-3) (-2) 0, pt (-1) (-2) 0, pt (-2) 0 0]) = Returned [3]"
  by code_simp

lemma survey_inside1: "findPointsInHullOnlyPointIndices pcl_z0
     (Some [pt (-3) (-2) 0, pt (-1) (-2) 0, pt (-2) 0 0])
     (Some [pt (-4) (-4) 0, pt 1 0 0, pt (-4) 4 0]) = Returned [0, 2]"
  by code_simp

lemma survey_projected: "project_lines pcl_z0 False survey
    = Returned (survey
         \<lparr>line1InPlane := Some [pt 0 0 0, pt (- 4) (- 4) 0, pt (- 4) 4 0, pt (- 2) (- 1) 0, pt 1 0 0],
          line2InPlane := Some [pt (-3) (-2) 0, pt (-1) (-2) 0, pt (-2) 0 0],
          line1InPlane2D := Some [pt 0 0 0, pt (- 4) (- 4) 0, pt (- 4) 4 0, pt (- 2) (- 1) 0, pt 1 0 0],
          line2InPlane2D := Some [pt (-3) (-2) 0, pt (-1) (-2) 0, pt (-2) 0 0]\<rparr>)"
    by (simp add: project_lines_eq Let_def pcl_z0_def engine_z0_def pt_def survey_def
      with_basis_def basis_of_def flattened_def vdiv_def vnorm_def vcross_def point2D_def)

lemma survey_run:
  "computeHullsAndPointsInBothHulls pcl_z0 (0, 0, 0) (0, 0, 0) None None False survey
   = Returned ((1, 2), None, None, survey
         \<lparr>line1InPlane := Some [pt 0 0 0, pt (- 4) (- 4) 0, pt (- 4) 4 0, pt (- 2) (- 1) 0, pt 1 0 0],
          line2InPlane := Some [pt (-3) (-2) 0, pt (-1) (-2) 0, pt (-2) 0 0],
          line1InPlane2D := Some [pt 0 0 0, pt (- 4) (- 4) 0, pt (- 4) 4 0, pt (- 2) (- 1) 0, pt 1 0 0],
          line2InPlane2D := Some [pt (-3) (-2) 0, pt (-1) (-2) 0, pt (-2) 0 0],
          hull1Vertices := Some [pt (-4) (-4) 0, pt 1 0 0, pt (-4) 4 0], hull1PointIndices := [1, 4, 2],
          hull2Vertices := Some [pt (-3) (-2) 0, pt (-1) (-2) 0, pt (-2) 0 0], hull2PointIndices := [0, 1, 2],
          line1InBothHullPointIndices := [3], line2InBothHullPointIndices := [0, 2]\<rparr>)"
  unfolding computeHullsAndPointsInBothHulls_def Let_def survey_projected
  by (simp add: compute_hulls_eq survey_def engine_z0_def hull_pair_def survey_hull1 survey_hull2 survey_indices1 survey_indices2 classify_def survey_inside2 survey_inside1)


section \<open>The array and the stack\<close>

lemma rev_drop_take_Suc:
  assumes "b \<le> k" "k < length h"
  shows "rev (drop b (take (Suc k) h)) = h ! k # rev (drop b (take k h))"
  using assms by (simp add: take_Suc_conv_app_nth)

lemma pops_short: "length st \<le> 1 \<Longrightarrow> pops st c = st"
  by (cases st; cases "tl st") auto

lemma pop_while_pops:
  assumes "b \<le> k" "k \<le> length h"
  shows "b \<le> pop_while (b + 2) h k p \<and> pop_while (b + 2) h k p \<le> k
       \<and> rev (drop b (take (pop_while (b + 2) h k p) h)) = pops (rev (drop b (take k h))) p"
  using assms
proof (induction k)
  case 0
  then show ?case by simp
next
  case (Suc k)
  show ?case
  proof (cases "b + 2 \<le> Suc k")
    case True
    then have bk: "b \<le> k - 1" "k - 1 < length h" "b \<le> k" "k < length h" "k \<le> length h"
      using Suc.prems by simp_all
    have k1: "Suc (k - 1) = k" using True by simp
    have shape: "rev (drop b (take (Suc k) h)) = h ! k # h ! (k - 1) # rev (drop b (take (k - 1) h))"
      using rev_drop_take_Suc [OF bk(3) bk(4)] rev_drop_take_Suc [OF bk(1) bk(2)] k1 by simp
    have mid: "rev (drop b (take k h)) = h ! (k - 1) # rev (drop b (take (k - 1) h))"
      using rev_drop_take_Suc [OF bk(1) bk(2)] k1 by simp
    show ?thesis
    proof (cases "fle (cross (h ! (Suc k - 2)) (h ! (Suc k - 1)) p) (Fin 0)")
      case c: True
      have "pop_while (b + 2) h (Suc k) p = pop_while (b + 2) h k p"
        using True c by simp
      moreover have "pops (rev (drop b (take (Suc k) h))) p = pops (rev (drop b (take k h))) p"
        using c by (simp add: shape mid)
      ultimately show ?thesis using Suc.IH [OF bk(3) bk(5)] by simp
    next
      case c: False
      have "pop_while (b + 2) h (Suc k) p = Suc k"
        using c by simp
      moreover have "pops (rev (drop b (take (Suc k) h))) p = rev (drop b (take (Suc k) h))"
        using c by (simp add: shape)
      ultimately show ?thesis using Suc.prems by simp
    qed
  next
    case False
    then have pw: "pop_while (b + 2) h (Suc k) p = Suc k" by simp
    have "length (rev (drop b (take (Suc k) h))) \<le> 1"
      using False Suc.prems by simp
    then have "pops (rev (drop b (take (Suc k) h))) p = rev (drop b (take (Suc k) h))"
      by (rule pops_short)
    then show ?thesis using pw Suc.prems by simp
  qed
qed

lemma chain_step_push:
  assumes "b \<le> k" "k < length h"
  shows "b < snd (chain_step (b + 2) (h, k) p)
       \<and> snd (chain_step (b + 2) (h, k) p) \<le> Suc k
       \<and> length (fst (chain_step (b + 2) (h, k) p)) = length h
       \<and> take b (fst (chain_step (b + 2) (h, k) p)) = take b h
       \<and> rev (drop b (take (snd (chain_step (b + 2) (h, k) p)) (fst (chain_step (b + 2) (h, k) p))))
           = push (rev (drop b (take k h))) p"
proof -
  define k' where "k' = pop_while (b + 2) h k p"
  have pw: "b \<le> k'" "k' \<le> k" "rev (drop b (take k' h)) = pops (rev (drop b (take k h))) p"
    using pop_while_pops [of b k h p] assms by (simp_all add: k'_def)
  have cs: "chain_step (b + 2) (h, k) p = (h[k' := p], Suc k')"
    by (simp add: chain_step_def k'_def Let_def)
  have lt: "k' < length h" using pw(2) assms(2) by simp
  have "take (Suc k') (h[k' := p]) = take k' h @ [p]"
    using lt by (simp add: take_Suc_conv_app_nth)
  then have "rev (drop b (take (Suc k') (h[k' := p]))) = p # rev (drop b (take k' h))"
    using pw(1) lt by simp
  then show ?thesis
    unfolding cs using pw lt by (simp add: push_def)
qed

lemma chain_steps:
  assumes "b \<le> k" "k + length qs \<le> length h"
  shows "b \<le> snd (foldl (chain_step (b + 2)) (h, k) qs)
       \<and> snd (foldl (chain_step (b + 2)) (h, k) qs) \<le> k + length qs
       \<and> length (fst (foldl (chain_step (b + 2)) (h, k) qs)) = length h
       \<and> take b (fst (foldl (chain_step (b + 2)) (h, k) qs)) = take b h
       \<and> rev (drop b (take (snd (foldl (chain_step (b + 2)) (h, k) qs))
                          (fst (foldl (chain_step (b + 2)) (h, k) qs))))
           = foldl push (rev (drop b (take k h))) qs"
  using assms
proof (induction qs arbitrary: h k)
  case Nil
  then show ?case by simp
next
  case (Cons q qs)
  obtain h' k' where s: "chain_step (b + 2) (h, k) q = (h', k')"
    by (cases "chain_step (b + 2) (h, k) q")
  have klt: "k < length h" using Cons.prems by simp
  have st: "b < k'" "k' \<le> Suc k" "length h' = length h" "take b h' = take b h"
    "rev (drop b (take k' h')) = push (rev (drop b (take k h))) q"
    using chain_step_push [OF Cons.prems(1) klt, of q] unfolding s by simp_all
  have p1: "b \<le> k'" using st(1) by simp
  have p2: "k' + length qs \<le> length h'" using st(2,3) Cons.prems(2) by simp
  have "foldl (chain_step (b + 2)) (h, k) (q # qs) = foldl (chain_step (b + 2)) (h', k') qs"
    unfolding foldl_Cons s ..
  then show ?case
    using Cons.IH [OF p1 p2] st by simp
qed

lemma chain_steps_from:
  assumes "t = b + 2" "b \<le> k" "k + length qs \<le> length h" "foldl (chain_step t) (h, k) qs = (h', k')"
  shows "b \<le> k'" "k' \<le> k + length qs" "length h' = length h" "take b h' = take b h"
    "rev (drop b (take k' h')) = foldl push (rev (drop b (take k h))) qs"
  using chain_steps [OF assms(2,3)] assms(4) unfolding assms(1) by simp_all

lemma length_insert_point [simp]: "length (insert_point p ps) = Suc (length ps)"
  by (induction ps) simp_all

lemma length_sort_points [simp]: "length (sort_points ps) = length ps"
  by (induction ps) (simp_all add: sort_points_def)

lemma set_insert_point [simp]: "set (insert_point p ps) = insert p (set ps)"
  by (induction ps) auto

lemma set_sort_points [simp]: "set (sort_points ps) = set ps"
  by (induction ps) (simp_all add: sort_points_def)

lemma push_Nil [simp]: "push [] c = [c]"
  by (simp add: push_def)

lemma foldl_push_snoc: "foldl push st (qs @ [q]) = q # pops (foldl push st qs) q"
  by (simp add: push_def)

lemma chain_snoc: "chain_of (qs @ [q]) = q # pops (chain_of qs) q"
  by (simp add: chain_of_def push_def)

lemma chain_nonempty: "ps \<noteq> [] \<Longrightarrow> chain_of ps \<noteq> [] \<and> hd (chain_of ps) = last ps"
  by (cases ps rule: rev_cases) (simp_all add: chain_snoc)

lemma chain_Cons: "chain_of (q # qs) = foldl push [q] qs"
  by (simp add: chain_of_def)

lemma resize_take: "m \<le> length xs \<Longrightarrow> resize m xs = take m xs"
  by (simp add: resize_def)

lemma drop_last: "xs \<noteq> [] \<Longrightarrow> drop (length xs - Suc 0) xs = [last xs]"
  by (cases xs rule: rev_cases) simp_all

lemma AndrewsConvex_hull_chains:
  assumes n: "3 < length points"
  shows "fst (AndrewsConvex_hull points)
       = butlast (rev (chain_of (sort_points points))) @ butlast (rev (chain_of (rev (sort_points points))))"
proof -
  define S where "S = sort_points points"
  define n where "n = length points"
  define h0 where "h0 = resize (2 * n) []"
  define lower where "lower = foldl (chain_step 2) (h0, 0) S"
  define upper where "upper = foldl (chain_step (snd lower + 1)) lower (rev (butlast S))"
  have lenS: "length S = n" by (simp add: S_def n_def)
  have Sne: "S \<noteq> []" using assms lenS n_def by auto
  have h0: "length h0 = 2 * n" by (simp add: h0_def resize_def)
  have res: "fst (AndrewsConvex_hull points) = resize (snd upper - 1) (fst upper)"
    using assms by (simp add: AndrewsConvex_hull_def Let_def upper_def lower_def h0_def S_def n_def)
  obtain hL kL where L: "lower = (hL, kL)" by (cases lower)
  have "0 + length S \<le> length h0" by (simp add: lenS h0)
  from chain_steps_from [of 2 0 0 S h0 hL kL, OF _ _ this L [unfolded lower_def]]
  have l1: "kL \<le> n" "length hL = 2 * n" "rev (take kL hL) = chain_of S"
    by (simp_all add: lenS h0 chain_of_def)
  have takeL: "take kL hL = rev (chain_of S)"
    using l1(3) by (simp add: rev_swap)
  have "length (take kL hL) = kL" using l1 by simp
  then have kL: "kL = length (chain_of S)"
    unfolding takeL by simp
  have kL1: "1 \<le> kL" using chain_nonempty [OF Sne] kL by (cases "chain_of S") simp_all
  define b where "b = kL - 1"
  have b2: "b + 2 = kL + 1" using kL1 by (simp add: b_def)
  obtain hU kU where U: "upper = (hU, kU)" by (cases upper)
  have up: "foldl (chain_step (kL + 1)) (hL, kL) (rev (butlast S)) = (hU, kU)"
    using U by (simp add: upper_def L)
  have cap: "kL + length (rev (butlast S)) \<le> length hL"
    using l1 lenS by simp
  have bk: "b \<le> kL" by (simp add: b_def)
  note u0 = chain_steps_from [OF b2 [symmetric] bk cap up]
  have u1: "b \<le> kU" "length hU = length hL" "take b hU = take b hL"
    "rev (drop b (take kU hU)) = foldl push (rev (drop b (take kL hL))) (rev (butlast S))"
    using u0 by simp_all
  have "drop b (take kL hL) = drop (length (rev (chain_of S)) - Suc 0) (rev (chain_of S))"
    unfolding takeL by (simp add: b_def kL)
  also have "\<dots> = [last (rev (chain_of S))]"
    using chain_nonempty [OF Sne] by (intro drop_last) simp
  finally have d: "rev (drop b (take kL hL)) = [last S]"
    using chain_nonempty [OF Sne] by (simp add: last_rev)
  have revS: "rev S = last S # rev (butlast S)"
    using Sne by (cases S rule: rev_cases) simp_all
  have "chain_of (rev S) = foldl push [last S] (rev (butlast S))"
    unfolding revS by (rule chain_Cons)
  then have "rev (drop b (take kU hU)) = chain_of (rev S)"
    using u1(4) d by simp
  then have dU: "drop b (take kU hU) = rev (chain_of (rev S))"
    by (simp add: rev_swap)
  have tU: "take b (take kU hU) = butlast (rev (chain_of S))"
  proof -
    have "take b (take kU hU) = take b hU" using u1(1) by (simp add: min_def)
    also have "\<dots> = take b (take kL hL)" using u1(3) bk by (simp add: min_def)
    also have "\<dots> = butlast (rev (chain_of S))" unfolding takeL
      by (simp add: butlast_conv_take b_def kL)
    finally show ?thesis .
  qed
  have whole: "take kU hU = butlast (rev (chain_of S)) @ rev (chain_of (rev S))"
    using append_take_drop_id [of b "take kU hU"] tU dU by simp
  have Une: "rev (chain_of (rev S)) \<noteq> []"
    using chain_nonempty [of "rev S"] Sne by simp
  have kUle: "kU \<le> length hU"
    using u0(2,3) l1 lenS by simp
  have "resize (kU - 1) hU = take (kU - 1) hU"
    using kUle by (simp add: resize_take)
  also have "\<dots> = butlast (take kU hU)"
    using kUle by (simp add: butlast_take)
  also have "\<dots> = butlast (rev (chain_of S)) @ butlast (rev (chain_of (rev S)))"
    unfolding whole using Une by (simp add: butlast_append)
  finally show ?thesis
    unfolding res U S_def by simp
qed

section \<open>Left turns in the plane\<close>



lemma lex_le_refl [simp]: "lex_le p p"
  by (simp add: lex_le_def)





lemma cr_self [simp]: "cr p p b = 0" "cr p a p = 0" "cr p a a = 0"
  by (simp_all add: cr_def)



















lemma cr_neg [simp]: "cr (neg a) (neg b) (neg c) = cr a b c"
  by (simp add: cr_def neg_def algebra_simps)

lemma lex_le_neg [simp]: "lex_le (neg p) (neg q) = lex_le q p"
  by (auto simp: lex_le_def neg_def)

lemma neg_neg [simp]: "neg (neg p) = p"
  by (simp add: neg_def)
















section \<open>From the plane to the model\<close>



lemma fle_Fin [simp]: "fle (Fin a) (Fin b) = (a \<le> b)"
  by (auto simp: fle_def feq_def)

lemma feq_Fin [simp]: "feq (Fin a) (Fin b) = (a = b)"
  by (simp add: feq_def)


lemma pops_subset: "set (pops st c) \<subseteq> set st"
  by (induction st c rule: pops.induct) auto


lemma chain_of_subset: "set (chain_of S) \<subseteq> set S"
proof (induction S rule: rev_induct)
  case Nil
  then show ?case by (simp add: chain_of_def)
next
  case (snoc c S)
  then show ?case using pops_subset [of "chain_of S" c] by (auto simp: chain_snoc)
qed






lemma AndrewsConvex_hull_subset: "set (fst (AndrewsConvex_hull points)) \<subseteq> set points"
proof (cases "3 < length points")
  case True
  have "set (butlast (rev (chain_of (sort_points points)))) \<subseteq> set points"
    using chain_of_subset [of "sort_points points"] in_set_butlastD by fastforce
  moreover have "set (butlast (rev (chain_of (rev (sort_points points))))) \<subseteq> set points"
    using chain_of_subset [of "rev (sort_points points)"] in_set_butlastD by fastforce
  ultimately show ?thesis by (simp add: AndrewsConvex_hull_chains [OF True])
next
  case False
  then show ?thesis by (simp add: AndrewsConvex_hull_def map_nth)
qed

section \<open>The trivial case\<close>

text \<open>
  C8. A point set with at most three points is returned as the hull as it is: the same
  points with the same multiplicities, in the input order.
\<close>

theorem AndrewsConvex_hull_small:
  "length points \<le> 3 \<Longrightarrow> fst (AndrewsConvex_hull points) = points"
  by (simp add: AndrewsConvex_hull_def map_nth)


theorem AndrewsConvex_hull_small_witness:
  "length [\<lparr>pa_x = Fin 2, pa_y = Fin 0, pa_index = 0\<rparr>,
           \<lparr>pa_x = Fin 1, pa_y = Fin 0, pa_index = 1\<rparr>,
           \<lparr>pa_x = Fin 1, pa_y = Fin 0, pa_index = 2\<rparr>] \<le> 3
   \<and> fst (AndrewsConvex_hull
        [\<lparr>pa_x = Fin 2, pa_y = Fin 0, pa_index = 0\<rparr>,
         \<lparr>pa_x = Fin 1, pa_y = Fin 0, pa_index = 1\<rparr>,
         \<lparr>pa_x = Fin 1, pa_y = Fin 0, pa_index = 2\<rparr>])
     = [\<lparr>pa_x = Fin 2, pa_y = Fin 0, pa_index = 0\<rparr>,
        \<lparr>pa_x = Fin 1, pa_y = Fin 0, pa_index = 1\<rparr>,
        \<lparr>pa_x = Fin 1, pa_y = Fin 0, pa_index = 2\<rparr>]"
  using AndrewsConvex_hull_small
    [of "[\<lparr>pa_x = Fin 2, pa_y = Fin 0, pa_index = 0\<rparr>,
          \<lparr>pa_x = Fin 1, pa_y = Fin 0, pa_index = 1\<rparr>,
          \<lparr>pa_x = Fin 1, pa_y = Fin 0, pa_index = 2\<rparr>]"]
  by simp

section \<open>An invalid method string\<close>

lemma compute_hulls_invalid:
  "hullMethod st \<noteq> ''PCL ConcaveHull'' \<Longrightarrow> hullMethod st \<noteq> ''Andrew's'' \<Longrightarrow>
   compute_hulls P s1 s2 mm st = Exited 1"
  by (simp add: compute_hulls_def)

text \<open>
  C4, as the claim states it, fails: for a method string that is neither
  \<^verbatim>\<open>"PCL ConcaveHull"\<close> nor \<^verbatim>\<open>"Andrew's"\<close> the constructor does not hand a rejection back
  to its caller, it ends the process with \<^verbatim>\<open>exit( 1 )\<close>.
\<close>

theorem invalid_method_exits_counterexample:
  "HullOverlap_new [] [] (Fin 0) (Fin 0) (Fin 1) (Fin 0) ''Graham'' (Fin 1) (Fin 1) = Exited 1"
  by (simp add: HullOverlap_new_def)

text \<open>
  C4, amended. For every method string other than the two valid selectors, the
  constructor ends the process with exit status 1, so no engine is built and no default
  method is assumed; and \<^verbatim>\<open>computeHullsAndPointsInBothHulls\<close> on an engine that holds such
  a string never returns a result.
\<close>

theorem invalid_method_exits:
  assumes "method \<noteq> ''PCL ConcaveHull''" and "method \<noteq> ''Andrew's''"
  shows "HullOverlap_new l1 l2 a b c d method alpha1 alpha2 = Exited 1
       \<and> (hullMethod st = method \<longrightarrow>
            computeHullsAndPointsInBothHulls P start1 start2 out1 out2 mm st \<noteq> Returned r)"
proof (intro conjI impI)
  show "HullOverlap_new l1 l2 a b c d method alpha1 alpha2 = Exited 1"
    using assms by (simp add: HullOverlap_new_def)
next
  assume m: "hullMethod st = method"
  show "computeHullsAndPointsInBothHulls P start1 start2 out1 out2 mm st \<noteq> Returned r"
  proof
    assume "computeHullsAndPointsInBothHulls P start1 start2 out1 out2 mm st = Returned r"
    then obtain st1 st2 where 1: "project_lines P mm st = Returned st1"
      and 2: "compute_hulls P start1 start2 mm st1 = Returned st2"
      by (auto simp: computeHullsAndPointsInBothHulls_def Let_def and_then_eq_Returned)
    from 1 m have "hullMethod st1 = method"
      by (simp add: project_lines_hullMethod)
    with assms 2 show False
      by (simp add: compute_hulls_invalid)
  qed
qed

theorem invalid_method_exits_witness:
  "''Graham'' \<noteq> ''PCL ConcaveHull'' \<and> ''Graham'' \<noteq> ''Andrew's''
   \<and> HullOverlap_new [pt 0 0 0, pt 1 0 0] [] (Fin 0) (Fin 0) (Fin 1) (Fin 0) ''Graham'' (Fin 1) (Fin 1) = Exited 1
   \<and> (\<forall>r. computeHullsAndPointsInBothHulls pcl_z0 (0, 0, 0) (0, 0, 0) None None False
             (engine_z0 [pt 0 0 0, pt 1 0 0] [] ''Graham'') \<noteq> Returned r)"
proof -
  have m: "hullMethod (engine_z0 [pt 0 0 0, pt 1 0 0] [] ''Graham'') = ''Graham''"
    by (simp add: engine_z0_def)
  have n: "''Graham'' \<noteq> ''PCL ConcaveHull''" "''Graham'' \<noteq> ''Andrew's''"
    by simp_all
  show ?thesis
    using invalid_method_exits [OF n, of "[pt 0 0 0, pt 1 0 0]" "[]" "Fin 0" "Fin 0" "Fin 1" "Fin 0" "Fin 1" "Fin 1"
        "engine_z0 [pt 0 0 0, pt 1 0 0] [] ''Graham''" pcl_z0 "(0, 0, 0)" "(0, 0, 0)" None None False] m n
    by blast
qed

section \<open>Line selectors\<close>

text \<open>
  C9, as the claim states it, fails for \<^verbatim>\<open>getNbPointsInOverlap\<close>: for the line number 2
  it answers 0, which is also its answer for line number 0 of the same engine, so the
  caller cannot tell the invalid selector from a line without overlap.
\<close>

theorem getNbPointsInOverlap_invalid_counterexample:
  "getNbPointsInOverlap (engine_z0 [] [] ''Andrew's'') 2 = 0
   \<and> getNbPointsInOverlap (engine_z0 [] [] ''Andrew's'') 0 = 0"
  by (simp add: getNbPointsInOverlap_def engine_z0_def)

text \<open>
  C9, amended. For every line number outside \<open>{0, 1}\<close> the four pointer accessors return
  the null pointer, so none of them answers with the data of a line, and
  \<^verbatim>\<open>getNbPointsInOverlap\<close> returns 0.
\<close>

theorem invalid_line_number:
  assumes "lineNumber < 0 \<or> lineNumber > 1"
  shows "getConstPtrlineInBothHullPointIndices st lineNumber = None
       \<and> getConstPtrlineInPlane2D st lineNumber = None
       \<and> getConstPtrlineInPlane3D st lineNumber = None
       \<and> getConstPtrVerticesIndices st lineNumber = None
       \<and> getNbPointsInOverlap st lineNumber = 0"
  using assms
  by (simp add: getConstPtrlineInBothHullPointIndices_def getConstPtrlineInPlane2D_def
      getConstPtrlineInPlane3D_def getConstPtrVerticesIndices_def getNbPointsInOverlap_def)

theorem invalid_line_number_witness:
  "((2::int) < 0 \<or> (2::int) > 1)
   \<and> getConstPtrlineInBothHullPointIndices (engine_z0 [] [] ''Andrew's'') 2 = None
   \<and> getConstPtrlineInPlane2D (engine_z0 [] [] ''Andrew's'') 2 = None
   \<and> getConstPtrlineInPlane3D (engine_z0 [] [] ''Andrew's'') 2 = None
   \<and> getConstPtrVerticesIndices (engine_z0 [] [] ''Andrew's'') 2 = None
   \<and> getNbPointsInOverlap (engine_z0 [] [] ''Andrew's'') 2 = 0"
proof -
  have h: "(2::int) < 0 \<or> (2::int) > 1" by simp
  show ?thesis
    using invalid_line_number [OF h, of "engine_z0 [] [] ''Andrew's''"] h by blast
qed

section \<open>The two modes\<close>




section \<open>One output cloud missing\<close>



section \<open>A degenerate basis\<close>

lemma fsub_self: "zero_or_nan (fsub a a)"
  by (cases a) (simp_all add: zero_or_nan_def fsub_def)

lemma fmul_zero_or_nan: "zero_or_nan a \<Longrightarrow> zero_or_nan b \<Longrightarrow> zero_or_nan (fmul a b)"
  by (auto simp: zero_or_nan_def)

lemma fadd_zero_or_nan: "zero_or_nan a \<Longrightarrow> zero_or_nan b \<Longrightarrow> zero_or_nan (fadd a b)"
  by (auto simp: zero_or_nan_def)

lemma fsqrt_zero_or_nan: "zero_or_nan a \<Longrightarrow> zero_or_nan (fsqrt a)"
  by (auto simp: zero_or_nan_def)

lemma fdiv_zero_or_nan: "zero_or_nan a \<Longrightarrow> zero_or_nan b \<Longrightarrow> fdiv a b = NaN"
  by (auto simp: zero_or_nan_def signed_inf_def)

lemma fmul_NaN [simp]: "fmul a NaN = NaN"
  by (cases a) simp_all

lemma fadd_NaN [simp]: "fadd a NaN = NaN"
  by (cases a) simp_all

lemma fdiv_NaN [simp]: "fdiv a NaN = NaN"
  by (cases a) simp_all

lemma vnorm_zero_or_nan:
  "zero_or_nan a \<Longrightarrow> zero_or_nan b \<Longrightarrow> zero_or_nan c \<Longrightarrow> zero_or_nan (vnorm (a, b, c))"
  by (simp add: vnorm_def fsqrt_zero_or_nan fadd_zero_or_nan fmul_zero_or_nan)

lemma normalise_degenerate:
  assumes "zero_or_nan a" "zero_or_nan b" "zero_or_nan c"
  shows "vdiv (a, b, c) (vnorm (a, b, c)) = (NaN, NaN, NaN)"
  using assms vnorm_zero_or_nan [OF assms] by (simp add: vdiv_def fdiv_zero_or_nan)

lemma vcross_NaN: "vcross n (NaN, NaN, NaN) = (NaN, NaN, NaN)"
  by (cases n) (simp add: vcross_def fsub_def)

lemma normalise_NaN: "vdiv (NaN, NaN, NaN) (vnorm (NaN, NaN, NaN)) = (NaN, NaN, NaN)"
  by (simp add: vdiv_def vnorm_def)

lemma basis_of_degenerate:
  assumes "pts \<noteq> []" "last pts = hd pts"
  shows "basis_of st pts = (hd pts, (NaN, NaN, NaN), (NaN, NaN, NaN))"
proof -
  have 0: "pts ! 0 = hd pts" using assms(1) by (simp add: hd_conv_nth)
  have 1: "pts ! (length pts - Suc 0) = hd pts" using assms by (simp add: last_conv_nth)
  show ?thesis
    by (simp add: basis_of_def Let_def 0 1 normalise_degenerate fsub_self vcross_NaN normalise_NaN)
qed

text \<open>
  C3, as the claim states it, fails: for a first line of a single point the basis step
  raises nothing. It returns, every component of \<^verbatim>\<open>vector1\<close> and \<^verbatim>\<open>vector2\<close> is NaN, and
  the computation goes on with them.
\<close>

theorem degenerate_basis_counterexample:
  "computeTwoVectorsAndRefPoint
     ((engine_z0 [pt 1 2 3] [] ''Andrew's'')\<lparr>line1InPlane := Some [pt 1 2 0]\<rparr>)
   = Returned ((engine_z0 [pt 1 2 3] [] ''Andrew's'')
       \<lparr>line1InPlane := Some [pt 1 2 0],
        refPoint := pt 1 2 0, vector1 := (NaN, NaN, NaN), vector2 := (NaN, NaN, NaN)\<rparr>)"
  by (simp add: computeTwoVectorsAndRefPoint_def Let_def pt_def vdiv_def vnorm_def vcross_def
      signed_inf_def engine_z0_def fsub_def)

text \<open>
  C3, amended. If the projected first line is not empty and its first and last points
  coincide (in particular, if it has exactly one point), the basis step raises no error:
  it returns with \<^verbatim>\<open>refPoint\<close> set to the first point and with every component of \<^verbatim>\<open>vector1\<close>
  and \<^verbatim>\<open>vector2\<close> NaN.
\<close>

theorem degenerate_basis:
  assumes "line1InPlane st = Some pts" and "pts \<noteq> []" and "last pts = hd pts"
  shows "computeTwoVectorsAndRefPoint st
       = Returned (st\<lparr>refPoint := hd pts, vector1 := (NaN, NaN, NaN), vector2 := (NaN, NaN, NaN)\<rparr>)"
  using assms by (simp add: computeTwoVectorsAndRefPoint_eq basis_of_degenerate with_basis_def)

theorem degenerate_basis_witness:
  "computeTwoVectorsAndRefPoint
     ((engine_z0 [pt 1 2 3, pt 5 5 5, pt 1 2 3] [] ''Andrew's'')\<lparr>line1InPlane := Some [pt 1 2 0, pt 5 5 0, pt 1 2 0]\<rparr>)
   = Returned ((engine_z0 [pt 1 2 3, pt 5 5 5, pt 1 2 3] [] ''Andrew's'')
       \<lparr>line1InPlane := Some [pt 1 2 0, pt 5 5 0, pt 1 2 0],
        refPoint := pt 1 2 0, vector1 := (NaN, NaN, NaN), vector2 := (NaN, NaN, NaN)\<rparr>)"
proof -
  have a: "line1InPlane ((engine_z0 [pt 1 2 3, pt 5 5 5, pt 1 2 3] [] ''Andrew's'')\<lparr>line1InPlane := Some [pt 1 2 0, pt 5 5 0, pt 1 2 0]\<rparr>)
     = Some [pt 1 2 0, pt 5 5 0, pt 1 2 0]" by simp
  have b: "[pt 1 2 0, pt 5 5 0, pt 1 2 0] \<noteq> []" by simp
  have c: "last [pt 1 2 0, pt 5 5 0, pt 1 2 0] = hd [pt 1 2 0, pt 5 5 0, pt 1 2 0]" by simp
  show ?thesis using degenerate_basis [OF a b c] by simp
qed

section \<open>An empty line\<close>

text \<open>
  C6 fails on the code when the first line is empty: \<^verbatim>\<open>computeTwoVectorsAndRefPoint\<close> reads
  the first and the last point of the empty projected cloud, which is a read past the end
  of the vector, so the call has no defined result.
\<close>

theorem empty_line1_undefined:
  "computeHullsAndPointsInBothHulls pcl_z0 (0, 0, 0) (0, 0, 0) (Some []) (Some []) False
     (engine_z0 [] [pt 0 0 0, pt 1 0 0, pt 0 1 0] ''Andrew's'') = Undefined"
  by (simp add: computeHullsAndPointsInBothHulls_def project_lines_eq Let_def pcl_z0_def engine_z0_def)

text \<open>
  An empty second line is handled as the claim says: its projected cloud is only looped
  over, so whenever the call returns, the count of line 2 is zero, and the call does
  return on a concrete pair of lines.
\<close>

lemma project_lines_line2_empty:
  assumes "line2 st = []" "ProjectInliers P (coefficients st) [] = []"
    and "project_lines P mm st = Returned s"
  shows "line2InPlane2D s = Some [] \<and> line2 s = []"
  using assms
  by (auto simp: project_lines_eq Let_def flattened_def with_basis_def split: if_splits)

lemma compute_hulls_line2:
  assumes "compute_hulls P s1 s2 mm st = Returned s"
  shows "line2InPlane2D s = line2InPlane2D st \<and> line2 s = line2 st"
  using assms
  by (auto simp: compute_hulls_eq Let_def split: if_splits option.splits)

lemma classify_line2_empty:
  assumes "line2InPlane2D st = Some []"
    and "classify P o1 o2 mm st = Returned (counts, r)"
  shows "snd counts = 0"
proof -
  consider "o1 = None \<or> o2 = None" | a b where "o1 = Some a" "o2 = Some b"
    by (cases o1; cases o2) auto
  then show ?thesis
  proof cases
    case 1
    then have "\<not> (o1 \<noteq> None \<and> o2 \<noteq> None)" by blast
    then show ?thesis using assms
      by (auto simp: classify_def and_then_eq_Returned findPointsInHullOnlyPointIndices_def Let_def)
  next
    case 2
    then show ?thesis using assms
      by (cases mm)
         (auto simp: classify_def and_then_eq_Returned findPointsInHullOnlyPoints_def
            findPointsInHull_def Let_def)
  qed
qed

lemma empty_line2_zero:
  assumes e: "line2 st = []" and p: "ProjectInliers P (coefficients st) [] = []"
    and run: "computeHullsAndPointsInBothHulls P s1 s2 o1 o2 mm st = Returned (counts, r)"
  shows "snd counts = 0"
proof -
  from run obtain st1 st2 where a: "project_lines P mm st = Returned st1"
    and b: "compute_hulls P s1 s2 mm st1 = Returned st2"
    and c: "classify P (map_option (\<lambda>_. []) o1) (map_option (\<lambda>_. []) o2) mm st2 = Returned (counts, r)"
    unfolding computeHullsAndPointsInBothHulls_def Let_def and_then_eq_Returned by blast
  have "line2InPlane2D st1 = Some []" using project_lines_line2_empty [OF e p a] by simp
  then have "line2InPlane2D st2 = Some []" using compute_hulls_line2 [OF b] by simp
  then show ?thesis using c by (rule classify_line2_empty)
qed

lemma empty2_hull1:
  "andrews_vertices (0, 0, 0) [pt 0 0 0, pt 0 1 0, pt 1 0 0] = [pt 0 0 0, pt 0 1 0, pt 1 0 0]"
  by code_simp

lemma empty2_hull2: "andrews_vertices (0, 0, 0) [] = []"
  by code_simp

lemma empty2_inside:
  "findPointsInHullOnlyPointIndices pcl_z0 (Some [pt 0 0 0, pt 0 1 0, pt 1 0 0]) (Some []) = Returned []"
  by code_simp

lemma empty2_inside2:
  "findPointsInHullOnlyPointIndices pcl_z0 (Some []) hv = Returned []"
  by (simp add: findPointsInHullOnlyPointIndices_def)

lemma empty2_projected:
  "project_lines pcl_z0 False (engine_z0 [pt 0 0 0, pt 0 1 0, pt 1 0 0] [] ''Andrew's'')
    = Returned ((engine_z0 [pt 0 0 0, pt 0 1 0, pt 1 0 0] [] ''Andrew's'')
         \<lparr>line1InPlane := Some [pt 0 0 0, pt 0 1 0, pt 1 0 0],
          line2InPlane := Some [],
          line1InPlane2D := Some [pt 0 0 0, pt 0 1 0, pt 1 0 0],
          line2InPlane2D := Some []\<rparr>)"
    by (simp add: project_lines_eq Let_def pcl_z0_def engine_z0_def pt_def
      with_basis_def basis_of_def flattened_def vdiv_def vnorm_def vcross_def point2D_def)

lemma empty_line2_run:
  "map_outcome overlap_result
     (computeHullsAndPointsInBothHulls pcl_z0 (0, 0, 0) (0, 0, 0) None None False
       (engine_z0 [pt 0 0 0, pt 0 1 0, pt 1 0 0] [] ''Andrew's''))
   = Returned ((0, 0), None, None)"
  unfolding computeHullsAndPointsInBothHulls_def Let_def empty2_projected
  by (simp add: compute_hulls_eq engine_z0_def hull_pair_def empty2_hull1 empty2_hull2
      classify_def empty2_inside empty2_inside2 overlap_result_def)

section \<open>Bounding boxes of the overlap\<close>

lemma DBL_MIN_pos: "0 < DBL_MIN"
  by (simp add: DBL_MIN_def)

lemma DBL_MAX_pos: "0 < DBL_MAX"
proof -
  have "(1::real) / 2 ^ 52 \<le> 1" by simp
  then have "(0::real) < 2 - 1 / 2 ^ 52" by linarith
  then show ?thesis by (simp add: DBL_MAX_def)
qed

lemma below_DBL_MAX: "x \<le> 0 \<Longrightarrow> (x < DBL_MAX) = True"
  using DBL_MAX_pos by simp

lemma not_above_DBL_MIN: "x \<le> 0 \<Longrightarrow> (DBL_MIN < x) = False"
  using DBL_MIN_pos by simp

text \<open>
  C7 fails on the code when no overlap point has a positive coordinate. After a run in
  full mode on the two lines of \<open>survey\<close>, the overlap points are \<open>(-2, -1)\<close> of line 1 and
  \<open>(-3, -2)\<close>, \<open>(-2, 0)\<close> of line 2, so the maximum is \<open>(-2, 0)\<close>; the maxima start at
  \<^verbatim>\<open>std::numeric_limits<double>::min()\<close>, which is positive, and are never replaced.
\<close>

theorem bounding_box_max_wrong:
  "and_then (computeHullsAndPointsInBothHulls pcl_z0 (0, 0, 0) (0, 0, 0) None None False survey)
     (\<lambda>r. getMinMaxPointsInOverlapPlane2D (snd (snd (snd r))) (pt 0 0 0) (pt 0 0 0))
   = Returned (True, pt (- 3) (- 2) 0, \<lparr>xyz_x = Fin DBL_MIN, xyz_y = Fin DBL_MIN, xyz_z = Fin 0\<rparr>)"
  unfolding survey_run
  by (simp add: getMinMaxPointsInOverlapPlane2D_def pt_def below_DBL_MAX not_above_DBL_MIN Let_def)

lemma bounding_box_3D_max_wrong:
  "and_then (computeHullsAndPointsInBothHulls pcl_z0 (0, 0, 0) (0, 0, 0) None None False survey)
     (\<lambda>r. getMinMaxPointsInOverlapPlane3D (snd (snd (snd r))) (pt 0 0 0) (pt 0 0 0))
   = Returned (True, pt (- 3) (- 2) 0, \<lparr>xyz_x = Fin DBL_MIN, xyz_y = Fin DBL_MIN, xyz_z = Fin DBL_MIN\<rparr>)"
  unfolding survey_run
  by (simp add: getMinMaxPointsInOverlapPlane3D_def pt_def below_DBL_MAX not_above_DBL_MIN Let_def)

section \<open>Indices of the hull vertices\<close>

text \<open>
  With every counter starting at 0, which the three loops are plainly meant to do, the
  claim holds for clouds of fewer than \<open>2 ^ 31\<close> points: the index list is as long as the
  vertex list, and each vertex has the coordinates of the input point at its index.
\<close>

lemma to_int_small:
  assumes "n < 2 ^ 31"
  shows "to_int n = int n"
proof -
  have "to_int n = sint (word_of_int (int n) :: 32 word)"
    by (simp add: to_int_def)
  also have "\<dots> = (int n + 2 ^ 31) mod 2 ^ 32 - 2 ^ 31"
    unfolding int_word_sint by simp
  also have "(int n + 2 ^ 31) mod 2 ^ 32 = int n + 2 ^ 31"
    using assms by (intro mod_pos_pos_trivial) simp_all
  finally show ?thesis by simp
qed

lemma hull_of_members:
  assumes "p \<in> set (hull_of (0, c2, c3) pts)"
  shows "pa_index p < length pts \<and> pa_x p = xyz_x (pts ! pa_index p) \<and> pa_y p = xyz_y (pts ! pa_index p)"
proof -
  have "p \<in> set (map (\<lambda>count. \<lparr>pa_x = xyz_x (pts ! count), pa_y = xyz_y (pts ! count), pa_index = count\<rparr>)
          [0..<length pts])"
    using assms AndrewsConvex_hull_subset unfolding hull_of_def by fastforce
  then show ?thesis by auto
qed

lemma hull_indices_from_zero:
  assumes run: "computeVerticesOfHullAndrews (0, 0, 0) (Some pts) (Some hv) idx True = Returned (vertices, indices)"
    and small: "length pts < 2 ^ 31"
  shows "length indices = length vertices
       \<and> (\<forall>j<length vertices. \<exists>i<length pts. indices ! j = int i
             \<and> xyz_x (vertices ! j) = xyz_x (pts ! i) \<and> xyz_y (vertices ! j) = xyz_y (pts ! i))"
proof -
  define h where "h = hull_of (0, 0, 0) pts"
  have v: "vertices = map (\<lambda>p. \<lparr>xyz_x = pa_x p, xyz_y = pa_y p, xyz_z = Fin 0\<rparr>) h"
    using run map_nth_upt [of "\<lambda>p. \<lparr>xyz_x = pa_x p, xyz_y = pa_y p, xyz_z = Fin 0\<rparr>" h]
    by (auto simp: computeVerticesOfHullAndrews_eq andrews_vertices_def h_def)
  have i: "indices = map (\<lambda>p. to_int (pa_index p)) h"
    using run map_nth_upt [of "\<lambda>p. to_int (pa_index p)" h]
    by (auto simp: computeVerticesOfHullAndrews_eq andrews_indices_def h_def)
  have "\<exists>i<length pts. indices ! j = int i
             \<and> xyz_x (vertices ! j) = xyz_x (pts ! i) \<and> xyz_y (vertices ! j) = xyz_y (pts ! i)"
    if j: "j < length vertices" for j
  proof -
    have jh: "j < length h" using j by (simp add: v)
    then have "h ! j \<in> set (hull_of (0, 0, 0) pts)" by (simp add: h_def)
    from hull_of_members [OF this]
    have m: "pa_index (h ! j) < length pts" "pa_x (h ! j) = xyz_x (pts ! pa_index (h ! j))"
      "pa_y (h ! j) = xyz_y (pts ! pa_index (h ! j))" by simp_all
    have "to_int (pa_index (h ! j)) = int (pa_index (h ! j))"
      using m(1) small by (intro to_int_small) simp
    then show ?thesis using m jh by (auto simp: v i)
  qed
  then show ?thesis by (simp add: v i)
qed

text \<open>
  C2 fails on the code: the loop that fills the vertex cloud and the loop that fills the
  index list each start from their own indeterminate counter value. When the first starts
  at 0 and the second at 1, the cloud of two points gets two hull vertices and one index,
  and the index recorded first is 1 while the first vertex is the point at position 0.
\<close>

theorem hull_indices_not_parallel:
  "computeVerticesOfHullAndrews (0, 0, 1) (Some [pt 0 0 0, pt 1 0 0]) (Some []) [] True
     = Returned ([pt 0 0 0, pt 1 0 0], [1])"
  by code_simp

section \<open>Strict convexity\<close>


lemma collinear_hull_value:
  "fst (AndrewsConvex_hull
      [\<lparr>pa_x = Fin 0, pa_y = Fin 0, pa_index = 0\<rparr>, \<lparr>pa_x = Fin 1, pa_y = Fin 0, pa_index = 1\<rparr>,
       \<lparr>pa_x = Fin 2, pa_y = Fin 0, pa_index = 2\<rparr>, \<lparr>pa_x = Fin 3, pa_y = Fin 0, pa_index = 3\<rparr>])
   = [\<lparr>pa_x = Fin 0, pa_y = Fin 0, pa_index = 0\<rparr>, \<lparr>pa_x = Fin 3, pa_y = Fin 0, pa_index = 3\<rparr>]"
  by code_simp




end
